theory Spec2Isabelle
  imports Main "HOL-Library.Sublist"
begin

section \<open>Strings and character classes\<close>

text \<open>
  JavaScript strings are modelled as HOL strings. The character classes are those of the
  regular expressions in \<^verbatim>\<open>crud.ts\<close>: ranges of code points.
\<close>

definition code :: "char \<Rightarrow> nat" where
  "code c = of_char c"

definition isDigit :: "char \<Rightarrow> bool" where
  "isDigit c = (48 \<le> code c \<and> code c \<le> 57)"

definition isUpper :: "char \<Rightarrow> bool" where
  "isUpper c = (65 \<le> code c \<and> code c \<le> 90)"

definition isLower :: "char \<Rightarrow> bool" where
  "isLower c = (97 \<le> code c \<and> code c \<le> 122)"

text \<open>\<^verbatim>\<open>[a-zA-Z_]\<close> and \<^verbatim>\<open>[a-zA-Z0-9_]\<close>.\<close>

definition isIdentStart :: "char \<Rightarrow> bool" where
  "isIdentStart c = (isLower c \<or> isUpper c \<or> code c = 95)"

definition isIdentChar :: "char \<Rightarrow> bool" where
  "isIdentChar c = (isLower c \<or> isUpper c \<or> isDigit c \<or> code c = 95)"

text \<open>\<^verbatim>\<open>/^[a-zA-Z_][a-zA-Z0-9_]*$/.test(name)\<close>: without the \<^verbatim>\<open>m\<close> flag the
  anchors are the two ends of the input.\<close>

fun identRegex :: "string \<Rightarrow> bool" where
  "identRegex [] = False"
| "identRegex (c # cs) = (isIdentStart c \<and> list_all isIdentChar cs)"

text \<open>\<^verbatim>\<open>String.prototype.toLowerCase\<close>, as it acts on ASCII: in \<^verbatim>\<open>validateIdentifier\<close> the
  call comes after the identifier test, so the name is ASCII there; on a column type its
  result is only compared with the ASCII names of the allowed types.\<close>

definition toLowerChar :: "char \<Rightarrow> char" where
  "toLowerChar c = (if isUpper c then char_of (code c + 32) else c)"

definition toLowerCase :: "string \<Rightarrow> string" where
  "toLowerCase s = map toLowerChar s"

section \<open>Errors\<close>

datatype error =
    BadRequestError string
  | NotFoundError string
  | DriverError string

fun isBadRequest :: "error + 'a \<Rightarrow> bool" where
  "isBadRequest (Inl (BadRequestError m)) = True"
| "isBadRequest r = False"

fun isOk :: "error + 'a \<Rightarrow> bool" where
  "isOk (Inr x) = True"
| "isOk (Inl e) = False"

section \<open>Identifier validation\<close>

datatype identKind = Table | Column

fun kindName :: "identKind \<Rightarrow> string" where
  "kindName Table = ''table''"
| "kindName Column = ''column''"

definition RESERVED_TABLE_NAMES :: "string list" where
  "RESERVED_TABLE_NAMES = [''pg_catalog'', ''information_schema'', ''pg_toast'', ''pg_temp'']"

definition validateIdentifier :: "string \<Rightarrow> identKind \<Rightarrow> error + unit" where
  "validateIdentifier name kind =
     (if name = [] then Inl (BadRequestError (kindName kind @ '' name is required''))
      else if \<not> identRegex name then
        Inl (BadRequestError (''Invalid '' @ kindName kind @ '' name: '' @ name @
          ''. Must start with letter or underscore, contain only alphanumeric and underscores''))
      else if length name > 63 then
        Inl (BadRequestError (kindName kind @ '' name too long: max 63 characters''))
      else if kind = Table \<and> toLowerCase name \<in> set RESERVED_TABLE_NAMES then
        Inl (BadRequestError (kindName kind @ '' name is reserved: '' @ name))
      else Inr ())"


section \<open>Text helpers\<close>

text \<open>\<^verbatim>\<open>Array.prototype.join\<close>, decimal rendering of numbers inside template literals,
  and \<^verbatim>\<open>"${name}"\<close>.\<close>

fun join :: "string \<Rightarrow> string list \<Rightarrow> string" where
  "join sep [] = []"
| "join sep [x] = x"
| "join sep (x # y # ys) = x @ sep @ join sep (y # ys)"

fun showNat :: "nat \<Rightarrow> string" where
  "showNat n = (if n < 10 then [''0123456789'' ! n]
                else showNat (n div 10) @ [''0123456789'' ! (n mod 10)])"

declare showNat.simps [simp del]

definition showInt :: "int \<Rightarrow> string" where
  "showInt i = (if i < 0 then CHR ''-'' # showNat (nat (- i)) else showNat (nat i))"

definition quoteIdent :: "string \<Rightarrow> string" where
  "quoteIdent s = CHR 0x22 # s @ [CHR 0x22]"

definition newline :: "string" where
  "newline = [CHR 0x0A]"

text \<open>White space as \<^verbatim>\<open>trim\<close> and \<^verbatim>\<open>parseInt\<close> skip it (tab, line feed, vertical tab,
  form feed, carriage return, space, no-break space).\<close>

definition isSpace :: "char \<Rightarrow> bool" where
  "isSpace c = (code c \<in> {9, 10, 11, 12, 13, 32, 160})"

definition trim :: "string \<Rightarrow> string" where
  "trim s = rev (dropWhile isSpace (rev (dropWhile isSpace s)))"

text \<open>The positional placeholders \<^verbatim>\<open>$1 .. $n\<close> starting at index \<open>i\<close>.\<close>

definition placeholder :: "nat \<Rightarrow> string" where
  "placeholder i = CHR ''$'' # showNat i"

section \<open>Numbers of the request\<close>

text \<open>
  A JavaScript number as the select path sees it, which is a result of \<^verbatim>\<open>parseInt\<close> or a
  number of the configuration: \<^verbatim>\<open>NaN\<close>; or \<open>Num n\<close>, an integer of magnitude at most
  \<open>2^53 - 1\<close>, which a double holds exactly and a template literal prints with its decimal
  digits; or \<open>Big neg ds\<close>, the double nearest to the integer with the sign \<open>neg\<close> and the
  decimal digits \<open>ds\<close>, of magnitude \<open>2^53\<close> or more (it may be an infinity). The value of
  a \<open>Big\<close> is not computed here, and the text the runtime prints for it is a parameter
  (\<open>bigNumberText\<close> below).
\<close>

datatype jsnumber = NaN | Num int | Big bool string

definition MAX_SAFE_INTEGER :: int where
  "MAX_SAFE_INTEGER = 9007199254740991"

definition safeInt :: "int \<Rightarrow> bool" where
  "safeInt n = (- MAX_SAFE_INTEGER \<le> n \<and> n \<le> MAX_SAFE_INTEGER)"

text \<open>\<^verbatim>\<open>parseInt(s, 10)\<close>: skip leading white space, read an optional sign, then the longest
  run of decimal digits; no digit gives \<^verbatim>\<open>NaN\<close>; whatever follows the digits is ignored.\<close>

fun digitsValue :: "string \<Rightarrow> int \<Rightarrow> int" where
  "digitsValue [] acc = acc"
| "digitsValue (c # cs) acc = digitsValue cs (10 * acc + (int (code c) - 48))"

definition parseInt10 :: "string \<Rightarrow> jsnumber" where
  "parseInt10 s =
     (let t = dropWhile isSpace s;
          neg = (case t of [] \<Rightarrow> False | c # r \<Rightarrow> c = CHR ''-'');
          u = (case t of [] \<Rightarrow> [] | c # r \<Rightarrow> if c = CHR ''-'' \<or> c = CHR ''+'' then r else t);
          ds = takeWhile isDigit u
      in if ds = [] then NaN
         else if digitsValue ds 0 \<le> MAX_SAFE_INTEGER
         then Num (if neg then - digitsValue ds 0 else digitsValue ds 0)
         else Big neg ds)"

text \<open>The two limits of the configuration. \<^verbatim>\<open>env.ts\<close> 64--65 refuses to start with values
  outside the bounds of \<open>validConfig\<close>.\<close>

record config =
  defaultRowsLimit :: int
  maxRowsPerQuery :: int

definition validConfig :: "config \<Rightarrow> bool" where
  "validConfig cfg =
     (1 \<le> maxRowsPerQuery cfg \<and> maxRowsPerQuery cfg \<le> 10000 \<and>
      1 \<le> defaultRowsLimit cfg \<and> defaultRowsLimit cfg \<le> 1000)"

text \<open>The values \<^verbatim>\<open>env.ts\<close> gives when the environment sets neither variable.\<close>

definition envDefaults :: config where
  "envDefaults = \<lparr>defaultRowsLimit = 100, maxRowsPerQuery = 1000\<rparr>"

text \<open>\<^verbatim>\<open>x || d\<close> on a number that may be absent: \<^verbatim>\<open>undefined\<close>, \<^verbatim>\<open>NaN\<close> and \<^verbatim>\<open>0\<close> are
  falsy, every other number is truthy.\<close>

fun orElse :: "jsnumber option \<Rightarrow> int \<Rightarrow> jsnumber" where
  "orElse None d = Num d"
| "orElse (Some NaN) d = Num d"
| "orElse (Some (Num n)) d = (if n = 0 then Num d else Num n)"
| "orElse (Some (Big neg ds)) d = Big neg ds"

text \<open>\<^verbatim>\<open>Math.min(x, m)\<close> for a number \<open>m\<close> of the configuration, which is below every positive
  \<open>Big\<close> and above every negative one.\<close>

fun jsMin :: "jsnumber \<Rightarrow> int \<Rightarrow> jsnumber" where
  "jsMin NaN m = NaN"
| "jsMin (Num n) m = Num (min n m)"
| "jsMin (Big neg ds) m = (if neg then Big neg ds else Num m)"

text \<open>\<^verbatim>\<open>crud.ts\<close> 162--166.\<close>

definition effectiveLimit :: "config \<Rightarrow> jsnumber option \<Rightarrow> jsnumber" where
  "effectiveLimit cfg requested =
     jsMin (orElse requested (defaultRowsLimit cfg)) (maxRowsPerQuery cfg)"

definition effectiveOffset :: "jsnumber option \<Rightarrow> jsnumber" where
  "effectiveOffset requested = orElse requested 0"

section \<open>Schema metadata, requests and the database\<close>

type_synonym projectId = string

record ColumnInfo =
  ci_name :: string
  ci_type :: string
  ci_nullable :: bool
  ci_defaultValue :: "string option"

record TableInfo =
  ti_tableName :: string
  ti_columns :: "ColumnInfo list"

text \<open>A row of the catalog query of \<^verbatim>\<open>getTables\<close>.\<close>

record catalogRow =
  table_name :: string
  column_name :: string
  data_type :: string
  is_nullable :: string
  column_default :: "string option"

text \<open>\<^verbatim>\<open>ParsedFilter\<close> and \<^verbatim>\<open>ParsedOrder\<close> of the shared package; the engine reads only
  their column. Values of a request (\<^verbatim>\<open>unknown\<close> in the source) are of an arbitrary type
  \<open>'v\<close>: the engine never inspects them.\<close>

record 'v ParsedFilter =
  pf_column :: string
  pf_operator :: string
  pf_value :: "'v list"

record ParsedOrder =
  po_column :: string
  po_descending :: bool

datatype selectSpec = Star | Cols "string list"

record 'v selectOptions =
  so_select :: "selectSpec option"
  so_order :: "ParsedOrder option"
  so_limit :: "jsnumber option"
  so_offset :: "jsnumber option"
  so_filters :: "'v ParsedFilter list option"

text \<open>An object of the request body, as \<^verbatim>\<open>Object.entries\<close> lists it.\<close>

type_synonym 'v jsobject = "(string \<times> 'v) list"

datatype role = App | Owner

record 'v stmt =
  s_role :: role
  s_project :: projectId
  s_sql :: string
  s_params :: "'v list"

record 'v queryResult =
  qr_rows :: "'v jsobject list"
  qr_rowCount :: "nat option"

text \<open>
  The tenant databases are outside the program. A database is a deterministic oracle: what
  it answers to a statement depends on the statements it received before. \<open>catalogOf\<close>
  is its answer to the catalog query of \<^verbatim>\<open>getTables\<close>, \<open>answer\<close> its answer to any other
  statement; either may be an error thrown by the driver.
\<close>

record 'v database =
  catalogOf :: "'v stmt list \<Rightarrow> projectId \<Rightarrow> error + catalogRow list"
  answer :: "'v stmt list \<Rightarrow> 'v stmt \<Rightarrow> error + 'v queryResult"

text \<open>
  The state the program works on: the module-level \<^verbatim>\<open>tableInfoCache\<close> and the statements
  sent to the databases so far, oldest first.
\<close>

record 'v world =
  tableInfoCache :: "projectId \<rightharpoonup> (TableInfo list \<times> int)"
  issued :: "'v stmt list"

definition CACHE_TTL_MS :: int where
  "CACHE_TTL_MS = 60000"

text \<open>
  The functions of \<^verbatim>\<open>lib/sql-builder.js\<close>, \<^verbatim>\<open>lib/query-parser.js\<close> and the shared
  package's \<^verbatim>\<open>tableNameSchema\<close> are not part of the sources at hand; they are parameters.
  Each may throw. \<^verbatim>\<open>buildWhereClause\<close> takes the filters and the optional first
  parameter index. \<open>bigNumberText neg ds\<close> is the text the JavaScript runtime puts into a
  template literal for the number \<open>Big neg ds\<close>.
\<close>

record 'v lib =
  tableNameSchema :: "string \<Rightarrow> bool"
  parseSelect :: "string option \<Rightarrow> error + selectSpec option"
  parseOrder :: "string option \<Rightarrow> error + ParsedOrder option"
  parseFilters :: "(string \<times> string) list \<Rightarrow> error + 'v ParsedFilter list"
  buildWhereClause :: "'v ParsedFilter list \<Rightarrow> nat option \<Rightarrow> error + (string \<times> 'v list)"
  buildOrderClause :: "ParsedOrder option \<Rightarrow> error + string"
  buildSelectColumns :: "selectSpec \<Rightarrow> string list \<Rightarrow> error + string"
  bigNumberText :: "bool \<Rightarrow> string \<Rightarrow> string"

section \<open>Database access and the schema cache\<close>

definition queryAs ::
  "role \<Rightarrow> 'v database \<Rightarrow> projectId \<Rightarrow> string \<Rightarrow> 'v list \<Rightarrow> 'v world
     \<Rightarrow> (error + 'v queryResult) \<times> 'v world" where
  "queryAs r D pid sql ps w =
     (let st = \<lparr>s_role = r, s_project = pid, s_sql = sql, s_params = ps\<rparr>
      in (answer D (issued w) st, w\<lparr>issued := issued w @ [st]\<rparr>))"

definition queryAsApp ::
  "'v database \<Rightarrow> projectId \<Rightarrow> string \<Rightarrow> 'v list \<Rightarrow> 'v world
     \<Rightarrow> (error + 'v queryResult) \<times> 'v world" where
  "queryAsApp = queryAs App"

definition queryAsOwner ::
  "'v database \<Rightarrow> projectId \<Rightarrow> string \<Rightarrow> 'v world
     \<Rightarrow> (error + 'v queryResult) \<times> 'v world" where
  "queryAsOwner D pid sql w = queryAs Owner D pid sql [] w"

definition CATALOG_QUERY :: string where
  "CATALOG_QUERY =
     ''SELECT'' @ newline @
     ''         c.table_name,'' @ newline @
     ''         c.column_name,'' @ newline @
     ''         c.data_type,'' @ newline @
     ''         c.is_nullable,'' @ newline @
     ''         c.column_default'' @ newline @
     ''       FROM information_schema.columns c'' @ newline @
     ''       JOIN information_schema.tables t ON c.table_name = t.table_name AND c.table_schema = t.table_schema'' @ newline @
     ''       WHERE c.table_schema = '' @ [CHR 0x27] @ ''public'' @ [CHR 0x27] @
       '' AND t.table_type = '' @ [CHR 0x27] @ ''BASE TABLE'' @ [CHR 0x27] @ newline @
     ''       ORDER BY c.table_name, c.ordinal_position''"

definition columnOfRow :: "catalogRow \<Rightarrow> ColumnInfo" where
  "columnOfRow r = \<lparr>ci_name = column_name r, ci_type = data_type r,
     ci_nullable = (is_nullable r = ''YES''), ci_defaultValue = column_default r\<rparr>"

text \<open>The loop over \<^verbatim>\<open>result.rows\<close> (\<^verbatim>\<open>crud.ts\<close> 102--118): a \<^verbatim>\<open>Map\<close> keeps its keys in
  insertion order, so the tables are a list in which each name occurs once.\<close>

fun addColumnTo :: "TableInfo list \<Rightarrow> catalogRow \<Rightarrow> TableInfo list" where
  "addColumnTo [] r = [\<lparr>ti_tableName = table_name r, ti_columns = [columnOfRow r]\<rparr>]"
| "addColumnTo (t # ts) r =
     (if ti_tableName t = table_name r
      then t\<lparr>ti_columns := ti_columns t @ [columnOfRow r]\<rparr> # ts
      else t # addColumnTo ts r)"

definition tablesOfRows :: "catalogRow list \<Rightarrow> TableInfo list" where
  "tablesOfRows rs = foldl addColumnTo [] rs"

text \<open>
  The part of \<^verbatim>\<open>getTables\<close> after a cache miss (\<^verbatim>\<open>crud.ts\<close> 82--121) has two halves. The
  first sends the catalog query, which the database answers from the statements it has
  received until then; the call then waits for the answer (\<^verbatim>\<open>await\<close>), and other requests
  may run before the second half, which builds the tables from the answer and writes them
  to the cache with the time of that moment. \<open>fetchTables\<close> is a call that nothing
  interrupts, with one reading \<open>now\<close> of \<^verbatim>\<open>Date.now()\<close> for the whole call.
\<close>

definition fetchStart ::
  "'v database \<Rightarrow> projectId \<Rightarrow> 'v world \<Rightarrow> (error + catalogRow list) \<times> 'v world" where
  "fetchStart D pid w =
     (catalogOf D (issued w) pid,
      w\<lparr>issued := issued w @
         [\<lparr>s_role = App, s_project = pid, s_sql = CATALOG_QUERY, s_params = []\<rparr>]\<rparr>)"

definition fetchFinish ::
  "int \<Rightarrow> projectId \<Rightarrow> error + catalogRow list \<Rightarrow> 'v world
     \<Rightarrow> (error + TableInfo list) \<times> 'v world" where
  "fetchFinish now pid answered w =
     (case answered of
        Inl e \<Rightarrow> (Inl e, w)
      | Inr rs \<Rightarrow>
          (Inr (tablesOfRows rs),
           w\<lparr>tableInfoCache := (tableInfoCache w)(pid \<mapsto> (tablesOfRows rs, now))\<rparr>))"

definition fetchTables ::
  "'v database \<Rightarrow> int \<Rightarrow> projectId \<Rightarrow> 'v world \<Rightarrow> (error + TableInfo list) \<times> 'v world" where
  "fetchTables D now pid w =
     (case fetchStart D pid w of (answered, w1) \<Rightarrow> fetchFinish now pid answered w1)"

definition getTables ::
  "'v database \<Rightarrow> int \<Rightarrow> projectId \<Rightarrow> 'v world \<Rightarrow> (error + TableInfo list) \<times> 'v world" where
  "getTables D now pid w =
     (case tableInfoCache w pid of
        None \<Rightarrow> fetchTables D now pid w
      | Some (tables, stamp) \<Rightarrow>
          if now - stamp < CACHE_TTL_MS then (Inr tables, w) else fetchTables D now pid w)"

text \<open>\<^verbatim>\<open>clearCache(projectId?)\<close>: an absent or empty project id clears every entry.\<close>

definition clearCache :: "projectId option \<Rightarrow> 'v world \<Rightarrow> 'v world" where
  "clearCache p w =
     (case p of
        None \<Rightarrow> w\<lparr>tableInfoCache := Map.empty\<rparr>
      | Some pid \<Rightarrow>
          if pid \<noteq> [] then w\<lparr>tableInfoCache := (tableInfoCache w)(pid := None)\<rparr>
          else w\<lparr>tableInfoCache := Map.empty\<rparr>)"


section \<open>The CRUD engine\<close>

text \<open>The opening of every operation (\<^verbatim>\<open>crud.ts\<close> 136--142 and its copies): the table must
  be one of the cached schema; its column names are the allowed ones.\<close>

definition allowedColumnsOf :: "TableInfo list \<Rightarrow> string \<Rightarrow> error + string list" where
  "allowedColumnsOf tables table =
     (case find (\<lambda>t. ti_tableName t = table) tables of
        None \<Rightarrow> Inl (NotFoundError (''Table '' @ quoteIdent table @ '' not found''))
      | Some info \<Rightarrow> Inr (map ci_name (ti_columns info)))"

definition checkFilterColumns :: "string list \<Rightarrow> 'v ParsedFilter list \<Rightarrow> error + unit" where
  "checkFilterColumns allowed filters =
     (case find (\<lambda>f. pf_column f \<notin> set allowed) filters of
        Some f \<Rightarrow> Inl (BadRequestError (''Invalid filter column: '' @ pf_column f))
      | None \<Rightarrow> Inr ())"

definition checkPayloadColumns :: "string list \<Rightarrow> 'v jsobject \<Rightarrow> error + unit" where
  "checkPayloadColumns allowed obj =
     (case find (\<lambda>col. col \<notin> set allowed) (map fst obj) of
        Some col \<Rightarrow> Inl (BadRequestError (''Invalid column: '' @ col))
      | None \<Rightarrow> Inr ())"

definition checkOrderColumn :: "string list \<Rightarrow> ParsedOrder option \<Rightarrow> error + unit" where
  "checkOrderColumn allowed order =
     (case order of
        None \<Rightarrow> Inr ()
      | Some ord \<Rightarrow>
          if po_column ord \<notin> set allowed
          then Inl (BadRequestError (''Invalid order column: '' @ po_column ord))
          else Inr ())"

subsection \<open>select\<close>

text \<open>The public name of each operation of \<^verbatim>\<open>crudService\<close> carries the prefix \<open>crud\<close>
  here (\<open>crudSelect\<close> for \<^verbatim>\<open>crudService.select\<close>, and so on).\<close>

text \<open>The text and parameters of the SELECT statement (\<^verbatim>\<open>crud.ts\<close> 144--174).\<close>

definition showNumber :: "'v lib \<Rightarrow> jsnumber \<Rightarrow> string" where
  "showNumber L x =
     (case x of
        NaN \<Rightarrow> ''NaN''
      | Num n \<Rightarrow> showInt n
      | Big neg ds \<Rightarrow> bigNumberText L neg ds)"

definition limitClause :: "'v lib \<Rightarrow> jsnumber \<Rightarrow> jsnumber \<Rightarrow> string" where
  "limitClause L lim off = ''LIMIT '' @ showNumber L lim @ '' OFFSET '' @ showNumber L off"

definition selectSql ::
  "'v lib \<Rightarrow> string \<Rightarrow> string \<Rightarrow> string \<Rightarrow> string \<Rightarrow> jsnumber \<Rightarrow> jsnumber \<Rightarrow> string" where
  "selectSql L selectCols table whereClause orderClause lim off =
     (newline @ ''      SELECT '' @ selectCols @ newline @
      ''      FROM '' @ quoteIdent table @ newline @
      ''      '' @ whereClause @ newline @
      ''      '' @ orderClause @ newline @
      ''      '') @ limitClause L lim off @ (newline @ ''    '')"

definition selectStatement ::
  "'v lib \<Rightarrow> config \<Rightarrow> string \<Rightarrow> string list \<Rightarrow> 'v selectOptions \<Rightarrow> error + (string \<times> 'v list)" where
  "selectStatement L cfg table allowed opts =
     (case checkOrderColumn allowed (so_order opts) of
        Inl e \<Rightarrow> Inl e
      | Inr _ \<Rightarrow>
      (case checkFilterColumns allowed (case so_filters opts of None \<Rightarrow> [] | Some fs \<Rightarrow> fs) of
        Inl e \<Rightarrow> Inl e
      | Inr _ \<Rightarrow>
      (case buildSelectColumns L (case so_select opts of None \<Rightarrow> Star | Some sel \<Rightarrow> sel) allowed of
        Inl e \<Rightarrow> Inl e
      | Inr selectCols \<Rightarrow>
      (case buildWhereClause L (case so_filters opts of None \<Rightarrow> [] | Some fs \<Rightarrow> fs) None of
        Inl e \<Rightarrow> Inl e
      | Inr (whereClause, whereValues) \<Rightarrow>
      (case buildOrderClause L (so_order opts) of
        Inl e \<Rightarrow> Inl e
      | Inr orderClause \<Rightarrow>
          Inr (selectSql L selectCols table whereClause orderClause
                 (effectiveLimit cfg (so_limit opts)) (effectiveOffset (so_offset opts)),
               whereValues))))))"

definition crudSelect ::
  "'v database \<Rightarrow> 'v lib \<Rightarrow> config \<Rightarrow> int \<Rightarrow> projectId \<Rightarrow> string \<Rightarrow> 'v selectOptions
     \<Rightarrow> 'v world \<Rightarrow> (error + ('v jsobject list \<times> nat)) \<times> 'v world" where
  "crudSelect D L cfg now pid table opts w =
     (case getTables D now pid w of
        (Inl e, w1) \<Rightarrow> (Inl e, w1)
      | (Inr tables, w1) \<Rightarrow>
      (case allowedColumnsOf tables table of
        Inl e \<Rightarrow> (Inl e, w1)
      | Inr allowed \<Rightarrow>
      (case selectStatement L cfg table allowed opts of
        Inl e \<Rightarrow> (Inl e, w1)
      | Inr (sql, ps) \<Rightarrow>
      (case queryAsApp D pid sql ps w1 of
        (Inl e, w2) \<Rightarrow> (Inl e, w2)
      | (Inr res, w2) \<Rightarrow>
          (Inr (qr_rows res, (case qr_rowCount res of None \<Rightarrow> 0 | Some n \<Rightarrow> n)), w2)))))"

subsection \<open>insert\<close>

text \<open>One turn of the loop over the rows, up to the statement it sends
  (\<^verbatim>\<open>crud.ts\<close> 198--217): the keys are checked in order, the columns are the quoted keys,
  the values go to the parameter vector and the text gets \<^verbatim>\<open>$1 .. $n\<close>.\<close>

definition insertSql :: "string \<Rightarrow> string list \<Rightarrow> bool \<Rightarrow> string" where
  "insertSql table keys returning =
     newline @ ''        INSERT INTO '' @ quoteIdent table @
       '' ('' @ join '', '' (map quoteIdent keys) @ '')'' @ newline @
     ''        VALUES ('' @ join '', '' (map placeholder [1 ..< Suc (length keys)]) @ '')'' @ newline @
     ''        '' @ (if returning then ''RETURNING *'' else []) @ newline @
     ''      ''"

definition insertStatement ::
  "string \<Rightarrow> string list \<Rightarrow> 'v jsobject \<Rightarrow> bool \<Rightarrow> error + (string \<times> 'v list)" where
  "insertStatement table allowed row returning =
     (case checkPayloadColumns allowed row of
        Inl e \<Rightarrow> Inl e
      | Inr _ \<Rightarrow> Inr (insertSql table (map fst row) returning, map snd row))"

text \<open>The loop over the rows (\<^verbatim>\<open>crud.ts\<close> 197--225): each row is checked and sent before the
  next row is looked at; \<open>results\<close> collects the returned rows.\<close>

fun insertRows ::
  "'v database \<Rightarrow> projectId \<Rightarrow> string \<Rightarrow> string list \<Rightarrow> bool \<Rightarrow> 'v jsobject list
     \<Rightarrow> 'v jsobject list \<Rightarrow> 'v world \<Rightarrow> (error + 'v jsobject list) \<times> 'v world" where
  "insertRows D pid table allowed returning [] results w = (Inr results, w)"
| "insertRows D pid table allowed returning (row # rest) results w =
     (case insertStatement table allowed row returning of
        Inl e \<Rightarrow> (Inl e, w)
      | Inr (sql, ps) \<Rightarrow>
      (case queryAsApp D pid sql ps w of
        (Inl e, w1) \<Rightarrow> (Inl e, w1)
      | (Inr res, w1) \<Rightarrow>
          insertRows D pid table allowed returning rest
            (if returning \<and> qr_rows res \<noteq> [] then results @ [hd (qr_rows res)] else results) w1))"

definition crudInsert ::
  "'v database \<Rightarrow> int \<Rightarrow> projectId \<Rightarrow> string \<Rightarrow> 'v jsobject list \<Rightarrow> bool
     \<Rightarrow> 'v world \<Rightarrow> (error + 'v jsobject list) \<times> 'v world" where
  "crudInsert D now pid table rows returning w =
     (case getTables D now pid w of
        (Inl e, w1) \<Rightarrow> (Inl e, w1)
      | (Inr tables, w1) \<Rightarrow>
      (case allowedColumnsOf tables table of
        Inl e \<Rightarrow> (Inl e, w1)
      | Inr allowed \<Rightarrow> insertRows D pid table allowed returning rows [] w1))"

subsection \<open>update and delete\<close>

definition setClauses :: "string list \<Rightarrow> string list" where
  "setClauses keys =
     map (\<lambda>(col, i). quoteIdent col @ '' = '' @ placeholder i)
       (zip keys [1 ..< Suc (length keys)])"

definition updateSql :: "string \<Rightarrow> string list \<Rightarrow> string \<Rightarrow> bool \<Rightarrow> string" where
  "updateSql table keys whereClause returning =
     newline @ ''      UPDATE '' @ quoteIdent table @ newline @
     ''      SET '' @ join '', '' (setClauses keys) @ newline @
     ''      '' @ whereClause @ newline @
     ''      '' @ (if returning then ''RETURNING *'' else []) @ newline @
     ''    ''"

text \<open>\<^verbatim>\<open>crud.ts\<close> 244--272: filter columns, then payload keys, then the WHERE clause built
  with the first free parameter index.\<close>

definition updateStatement ::
  "'v lib \<Rightarrow> string \<Rightarrow> string list \<Rightarrow> 'v jsobject \<Rightarrow> 'v ParsedFilter list \<Rightarrow> bool
     \<Rightarrow> error + (string \<times> 'v list)" where
  "updateStatement L table allowed vals filters returning =
     (case checkFilterColumns allowed filters of
        Inl e \<Rightarrow> Inl e
      | Inr _ \<Rightarrow>
      (case checkPayloadColumns allowed vals of
        Inl e \<Rightarrow> Inl e
      | Inr _ \<Rightarrow>
      (case buildWhereClause L filters (Some (Suc (length vals))) of
        Inl e \<Rightarrow> Inl e
      | Inr (whereClause, whereValues) \<Rightarrow>
          Inr (updateSql table (map fst vals) whereClause returning,
               map snd vals @ whereValues))))"

definition crudUpdate ::
  "'v database \<Rightarrow> 'v lib \<Rightarrow> int \<Rightarrow> projectId \<Rightarrow> string \<Rightarrow> 'v jsobject
     \<Rightarrow> 'v ParsedFilter list \<Rightarrow> bool \<Rightarrow> 'v world \<Rightarrow> (error + 'v jsobject list) \<times> 'v world" where
  "crudUpdate D L now pid table vals filters returning w =
     (case getTables D now pid w of
        (Inl e, w1) \<Rightarrow> (Inl e, w1)
      | (Inr tables, w1) \<Rightarrow>
      (case allowedColumnsOf tables table of
        Inl e \<Rightarrow> (Inl e, w1)
      | Inr allowed \<Rightarrow>
      (case updateStatement L table allowed vals filters returning of
        Inl e \<Rightarrow> (Inl e, w1)
      | Inr (sql, ps) \<Rightarrow>
      (case queryAsApp D pid sql ps w1 of
        (Inl e, w2) \<Rightarrow> (Inl e, w2)
      | (Inr res, w2) \<Rightarrow> (Inr (if returning then qr_rows res else []), w2)))))"

definition deleteStatement ::
  "'v lib \<Rightarrow> string \<Rightarrow> string list \<Rightarrow> 'v ParsedFilter list \<Rightarrow> error + (string \<times> 'v list)" where
  "deleteStatement L table allowed filters =
     (case checkFilterColumns allowed filters of
        Inl e \<Rightarrow> Inl e
      | Inr _ \<Rightarrow>
      (case buildWhereClause L filters None of
        Inl e \<Rightarrow> Inl e
      | Inr (whereClause, whereValues) \<Rightarrow>
          Inr (''DELETE FROM '' @ quoteIdent table @ '' '' @ whereClause, whereValues)))"

definition crudDelete ::
  "'v database \<Rightarrow> 'v lib \<Rightarrow> int \<Rightarrow> projectId \<Rightarrow> string \<Rightarrow> 'v ParsedFilter list
     \<Rightarrow> 'v world \<Rightarrow> (error + nat) \<times> 'v world" where
  "crudDelete D L now pid table filters w =
     (case getTables D now pid w of
        (Inl e, w1) \<Rightarrow> (Inl e, w1)
      | (Inr tables, w1) \<Rightarrow>
      (case allowedColumnsOf tables table of
        Inl e \<Rightarrow> (Inl e, w1)
      | Inr allowed \<Rightarrow>
      (case deleteStatement L table allowed filters of
        Inl e \<Rightarrow> (Inl e, w1)
      | Inr (sql, ps) \<Rightarrow>
      (case queryAsApp D pid sql ps w1 of
        (Inl e, w2) \<Rightarrow> (Inl e, w2)
      | (Inr res, w2) \<Rightarrow> (Inr (case qr_rowCount res of None \<Rightarrow> 0 | Some n \<Rightarrow> n), w2)))))"

section \<open>The public routes\<close>

text \<open>
  \<^verbatim>\<open>routes/public/db.ts\<close> 78--182. A request carries the project of its context, the
  \<^verbatim>\<open>:table\<close> path parameter, the query string as a list of pairs and, for PATCH, what
  \<^verbatim>\<open>updateBodySchema.safeParse\<close> made of the body (\<open>None\<close> when it failed).
\<close>

definition truthyParam :: "(string \<times> string) list \<Rightarrow> string \<Rightarrow> string option" where
  "truthyParam query k =
     (case map_of query k of None \<Rightarrow> None | Some s \<Rightarrow> if s = [] then None else Some s)"

definition limitOfQuery :: "(string \<times> string) list \<Rightarrow> jsnumber option" where
  "limitOfQuery query = map_option parseInt10 (truthyParam query ''limit'')"

definition offsetOfQuery :: "(string \<times> string) list \<Rightarrow> jsnumber option" where
  "offsetOfQuery query = map_option parseInt10 (truthyParam query ''offset'')"

definition selectOptionsOfQuery ::
  "'v lib \<Rightarrow> (string \<times> string) list \<Rightarrow> error + 'v selectOptions" where
  "selectOptionsOfQuery L query =
     (case parseSelect L (map_of query ''select'') of
        Inl e \<Rightarrow> Inl e
      | Inr sel \<Rightarrow>
      (case parseOrder L (map_of query ''order'') of
        Inl e \<Rightarrow> Inl e
      | Inr ord \<Rightarrow>
      (case parseFilters L query of
        Inl e \<Rightarrow> Inl e
      | Inr filters \<Rightarrow>
          Inr \<lparr>so_select = sel, so_order = ord, so_limit = limitOfQuery query,
               so_offset = offsetOfQuery query, so_filters = Some filters\<rparr>)))"

definition getRoute ::
  "'v database \<Rightarrow> 'v lib \<Rightarrow> config \<Rightarrow> int \<Rightarrow> projectId \<Rightarrow> string \<Rightarrow> (string \<times> string) list
     \<Rightarrow> 'v world \<Rightarrow> (error + ('v jsobject list \<times> nat)) \<times> 'v world" where
  "getRoute D L cfg now pid table query w =
     (if \<not> tableNameSchema L table then (Inl (BadRequestError ''Invalid table name''), w)
      else case selectOptionsOfQuery L query of
        Inl e \<Rightarrow> (Inl e, w)
      | Inr opts \<Rightarrow> crudSelect D L cfg now pid table opts w)"

definition patchRoute ::
  "'v database \<Rightarrow> 'v lib \<Rightarrow> int \<Rightarrow> projectId \<Rightarrow> string \<Rightarrow> ('v jsobject \<times> bool) option
     \<Rightarrow> (string \<times> string) list \<Rightarrow> 'v world \<Rightarrow> (error + 'v jsobject list) \<times> 'v world" where
  "patchRoute D L now pid table body query w =
     (if \<not> tableNameSchema L table then (Inl (BadRequestError ''Invalid table name''), w)
      else case body of
        None \<Rightarrow> (Inl (BadRequestError ''Invalid request body''), w)
      | Some (vals, returning) \<Rightarrow>
      (case parseFilters L query of
        Inl e \<Rightarrow> (Inl e, w)
      | Inr filters \<Rightarrow>
          if length filters = 0
          then (Inl (BadRequestError ''At least one filter is required for UPDATE''), w)
          else crudUpdate D L now pid table vals filters returning w))"

definition deleteRoute ::
  "'v database \<Rightarrow> 'v lib \<Rightarrow> int \<Rightarrow> projectId \<Rightarrow> string \<Rightarrow> (string \<times> string) list
     \<Rightarrow> 'v world \<Rightarrow> (error + nat) \<times> 'v world" where
  "deleteRoute D L now pid table query w =
     (if \<not> tableNameSchema L table then (Inl (BadRequestError ''Invalid table name''), w)
      else case parseFilters L query of
        Inl e \<Rightarrow> (Inl e, w)
      | Inr filters \<Rightarrow>
          if length filters = 0
          then (Inl (BadRequestError ''At least one filter is required for DELETE''), w)
          else crudDelete D L now pid table filters w)"


section \<open>The DDL engine\<close>

definition ALLOWED_DATA_TYPES :: "string list" where
  "ALLOWED_DATA_TYPES =
     [''text'', ''varchar'', ''char'', ''integer'', ''int'', ''bigint'', ''smallint'', ''serial'',
      ''bigserial'', ''boolean'', ''bool'', ''timestamp'', ''timestamptz'', ''date'', ''time'',
      ''timetz'', ''uuid'', ''json'', ''jsonb'', ''numeric'', ''decimal'', ''real'',
      ''double precision'', ''float'', ''bytea'']"

text \<open>\<^verbatim>\<open>ColumnDefinition\<close>; an absent \<^verbatim>\<open>primaryKey\<close> or \<^verbatim>\<open>unique\<close> is \<open>False\<close>.\<close>

record ColumnDefinition =
  cd_name :: string
  cd_type :: string
  cd_nullable :: "bool option"
  cd_primaryKey :: bool
  cd_unique :: bool
  cd_defaultValue :: "string option"
  cd_references :: "(string \<times> string) option"

text \<open>\<^verbatim>\<open>type.toLowerCase().split('(')[0].trim()\<close> must be an allowed type.\<close>

definition baseTypeOf :: "string \<Rightarrow> string" where
  "baseTypeOf ty = trim (takeWhile (\<lambda>c. c \<noteq> CHR ''('') (toLowerCase ty))"

definition dataTypeAllowed :: "string \<Rightarrow> bool" where
  "dataTypeAllowed ty = (baseTypeOf ty \<in> set ALLOWED_DATA_TYPES)"

text \<open>\<^verbatim>\<open>/^-?\d+(\.\d+)?$/\<close>. After the optional minus the digits are taken as far as they
  go (what follows them must be the point or the end, so no shorter run can match), then
  comes either the end or a point and one or more digits up to the end.\<close>

definition unsignedNumeric :: "string \<Rightarrow> bool" where
  "unsignedNumeric t =
     (takeWhile isDigit t \<noteq> [] \<and>
      (case dropWhile isDigit t of
         [] \<Rightarrow> True
       | c # frac \<Rightarrow> c = CHR ''.'' \<and> frac \<noteq> [] \<and> list_all isDigit frac))"

definition numericRegex :: "string \<Rightarrow> bool" where
  "numericRegex s =
     unsignedNumeric (case s of [] \<Rightarrow> [] | c # r \<Rightarrow> if c = CHR ''-'' then r else s)"

text \<open>\<^verbatim>\<open>/^'[^']*'$/\<close>: a quote, any characters but the quote, a quote.\<close>

definition quotedRegex :: "string \<Rightarrow> bool" where
  "quotedRegex s =
     (case s of
        [] \<Rightarrow> False
      | c # r \<Rightarrow> c = CHR 0x27 \<and> r \<noteq> [] \<and> last r = CHR 0x27 \<and> CHR 0x27 \<notin> set (butlast r))"

text \<open>The test on a default value (\<^verbatim>\<open>crud.ts\<close> 360--368 and 453--461).\<close>

definition defaultAllowed :: "string \<Rightarrow> bool" where
  "defaultAllowed d =
     (d = ''now()'' \<or> d = ''CURRENT_TIMESTAMP'' \<or> d = ''gen_random_uuid()'' \<or>
      d = ''true'' \<or> d = ''false'' \<or> numericRegex d \<or> quotedRegex d)"

definition defaultClause :: "string option \<Rightarrow> error + string" where
  "defaultClause dv =
     (case dv of
        None \<Rightarrow> Inr []
      | Some d \<Rightarrow>
          if defaultAllowed d then Inr ('' DEFAULT '' @ d)
          else Inl (BadRequestError (''Invalid default value: '' @ d)))"

text \<open>The four lists the loop of \<^verbatim>\<open>createTable\<close> fills.\<close>

record clauses =
  columnDefs :: "string list"
  primaryKeys :: "string list"
  uniqueConstraints :: "string list"
  foreignKeys :: "string list"

text \<open>The definition of a column as \<^verbatim>\<open>createTable\<close> and \<^verbatim>\<open>addColumn\<close> write it
  (\<^verbatim>\<open>crud.ts\<close> 351--373 and 445--466), \<open>dflt\<close> being the clause of the default value.\<close>

definition columnDefText :: "ColumnDefinition \<Rightarrow> string \<Rightarrow> string" where
  "columnDefText col dflt =
     quoteIdent (cd_name col) @ '' '' @ cd_type col @
     (if cd_nullable col = Some False then '' NOT NULL'' else []) @ dflt"

text \<open>One turn of the loop over the columns (\<^verbatim>\<open>crud.ts\<close> 340--392).\<close>

definition createTableColumn :: "ColumnDefinition \<Rightarrow> clauses \<Rightarrow> error + clauses" where
  "createTableColumn col acc =
     (case validateIdentifier (cd_name col) Column of
        Inl e \<Rightarrow> Inl e
      | Inr _ \<Rightarrow>
      if \<not> dataTypeAllowed (cd_type col)
      then Inl (BadRequestError (''Invalid data type: '' @ cd_type col @ ''. Allowed: '' @
                  join '', '' ALLOWED_DATA_TYPES))
      else
      (case defaultClause (cd_defaultValue col) of
        Inl e \<Rightarrow> Inl e
      | Inr dflt \<Rightarrow>
          (let def = columnDefText col dflt;
               acc1 = acc\<lparr>columnDefs := columnDefs acc @ [def],
                          primaryKeys := primaryKeys acc @
                            (if cd_primaryKey col then [quoteIdent (cd_name col)] else []),
                          uniqueConstraints := uniqueConstraints acc @
                            (if cd_unique col
                             then [''UNIQUE ('' @ quoteIdent (cd_name col) @ '')''] else [])\<rparr>
           in case cd_references col of
                None \<Rightarrow> Inr acc1
              | Some (refTable, refColumn) \<Rightarrow>
                (case validateIdentifier refTable Table of
                   Inl e \<Rightarrow> Inl e
                 | Inr _ \<Rightarrow>
                 (case validateIdentifier refColumn Column of
                   Inl e \<Rightarrow> Inl e
                 | Inr _ \<Rightarrow>
                     Inr (acc1\<lparr>foreignKeys := foreignKeys acc1 @
                       [''FOREIGN KEY ('' @ quoteIdent (cd_name col) @ '') REFERENCES '' @
                        quoteIdent refTable @ '' ('' @ quoteIdent refColumn @ '')'']\<rparr>))))))"

fun createTableColumns :: "ColumnDefinition list \<Rightarrow> clauses \<Rightarrow> error + clauses" where
  "createTableColumns [] acc = Inr acc"
| "createTableColumns (col # cols) acc =
     (case createTableColumn col acc of
        Inl e \<Rightarrow> Inl e
      | Inr acc1 \<Rightarrow> createTableColumns cols acc1)"

definition createTableSql :: "string \<Rightarrow> clauses \<Rightarrow> bool \<Rightarrow> string" where
  "createTableSql tableName acc ifNotExists =
     ''CREATE TABLE '' @ (if ifNotExists then ''IF NOT EXISTS '' else []) @
     quoteIdent tableName @ '' ('' @ newline @ ''  '' @
     join ('','' @ newline @ ''  '')
       (columnDefs acc @
        (if primaryKeys acc \<noteq> []
         then [''PRIMARY KEY ('' @ join '', '' (primaryKeys acc) @ '')''] else []) @
        uniqueConstraints acc @ foreignKeys acc) @
     newline @ '')''"

text \<open>Everything \<^verbatim>\<open>createTable\<close> does before it sends its statement (\<^verbatim>\<open>crud.ts\<close> 325--406).\<close>

definition createTableStatement ::
  "string \<Rightarrow> ColumnDefinition list \<Rightarrow> bool \<Rightarrow> error + string" where
  "createTableStatement tableName cols ifNotExists =
     (case validateIdentifier tableName Table of
        Inl e \<Rightarrow> Inl e
      | Inr _ \<Rightarrow>
      if length cols = 0 then Inl (BadRequestError ''At least one column is required'')
      else if length cols > 100 then Inl (BadRequestError ''Too many columns: max 100'')
      else
      (case createTableColumns cols
              \<lparr>columnDefs = [], primaryKeys = [], uniqueConstraints = [], foreignKeys = []\<rparr> of
        Inl e \<Rightarrow> Inl e
      | Inr acc \<Rightarrow> Inr (createTableSql tableName acc ifNotExists)))"

text \<open>
  What the loop of \<^verbatim>\<open>createTable\<close> has collected when it ends without an error, written
  column by column: the definition of the column with the clause of its default value,
  its name if it is a primary key, its UNIQUE constraint if it is unique and its FOREIGN
  KEY constraint if it references a column.
\<close>

definition defaultText :: "string option \<Rightarrow> string" where
  "defaultText dv = (case dv of None \<Rightarrow> [] | Some d \<Rightarrow> '' DEFAULT '' @ d)"

definition clausesOfColumn :: "ColumnDefinition \<Rightarrow> clauses" where
  "clausesOfColumn col =
     \<lparr>columnDefs = [columnDefText col (defaultText (cd_defaultValue col))],
      primaryKeys = (if cd_primaryKey col then [quoteIdent (cd_name col)] else []),
      uniqueConstraints =
        (if cd_unique col then [''UNIQUE ('' @ quoteIdent (cd_name col) @ '')''] else []),
      foreignKeys =
        (case cd_references col of
           None \<Rightarrow> []
         | Some (refTable, refColumn) \<Rightarrow>
             [''FOREIGN KEY ('' @ quoteIdent (cd_name col) @ '') REFERENCES '' @
              quoteIdent refTable @ '' ('' @ quoteIdent refColumn @ '')''])\<rparr>"

definition joinClauses :: "clauses \<Rightarrow> clauses \<Rightarrow> clauses" where
  "joinClauses a b =
     \<lparr>columnDefs = columnDefs a @ columnDefs b, primaryKeys = primaryKeys a @ primaryKeys b,
      uniqueConstraints = uniqueConstraints a @ uniqueConstraints b,
      foreignKeys = foreignKeys a @ foreignKeys b\<rparr>"

definition noClauses :: clauses where
  "noClauses = \<lparr>columnDefs = [], primaryKeys = [], uniqueConstraints = [], foreignKeys = []\<rparr>"

fun clausesOf :: "ColumnDefinition list \<Rightarrow> clauses" where
  "clausesOf [] = noClauses"
| "clausesOf (col # cols) = joinClauses (clausesOfColumn col) (clausesOf cols)"

text \<open>The checks of a column other than the one of its default value.\<close>

definition columnChecked :: "ColumnDefinition \<Rightarrow> bool" where
  "columnChecked col =
     (validateIdentifier (cd_name col) Column = Inr () \<and> dataTypeAllowed (cd_type col) \<and>
      (case cd_references col of
         None \<Rightarrow> True
       | Some (refTable, refColumn) \<Rightarrow>
           validateIdentifier refTable Table = Inr () \<and>
           validateIdentifier refColumn Column = Inr ()))"

text \<open>The end every DDL operation shares: send the statement as owner and, when the driver
  did not throw, \<^verbatim>\<open>this.clearCache(projectId)\<close> and the result.\<close>

definition runDdl ::
  "'v database \<Rightarrow> projectId \<Rightarrow> error + string \<Rightarrow> 'r \<Rightarrow> 'v world \<Rightarrow> (error + 'r) \<times> 'v world" where
  "runDdl D pid statement result w =
     (case statement of
        Inl e \<Rightarrow> (Inl e, w)
      | Inr sql \<Rightarrow>
      (case queryAsOwner D pid sql w of
        (Inl e, w1) \<Rightarrow> (Inl e, w1)
      | (Inr res, w1) \<Rightarrow> (Inr result, clearCache (Some pid) w1)))"

definition createTable ::
  "'v database \<Rightarrow> projectId \<Rightarrow> string \<Rightarrow> ColumnDefinition list \<Rightarrow> bool \<Rightarrow> 'v world
     \<Rightarrow> (error + string) \<times> 'v world" where
  "createTable D pid tableName cols ifNotExists w =
     runDdl D pid (createTableStatement tableName cols ifNotExists) tableName w"



definition addColumnStatement :: "string \<Rightarrow> ColumnDefinition \<Rightarrow> error + string" where
  "addColumnStatement tableName col =
     (case validateIdentifier tableName Table of
        Inl e \<Rightarrow> Inl e
      | Inr _ \<Rightarrow>
      (case validateIdentifier (cd_name col) Column of
        Inl e \<Rightarrow> Inl e
      | Inr _ \<Rightarrow>
      if \<not> dataTypeAllowed (cd_type col)
      then Inl (BadRequestError (''Invalid data type: '' @ cd_type col))
      else
      (case defaultClause (cd_defaultValue col) of
        Inl e \<Rightarrow> Inl e
      | Inr dflt \<Rightarrow>
          Inr (''ALTER TABLE '' @ quoteIdent tableName @ '' ADD COLUMN '' @
               columnDefText col dflt @ (if cd_unique col then '' UNIQUE'' else [])))))"

definition addColumn ::
  "'v database \<Rightarrow> projectId \<Rightarrow> string \<Rightarrow> ColumnDefinition \<Rightarrow> 'v world
     \<Rightarrow> (error + string \<times> string) \<times> 'v world" where
  "addColumn D pid tableName col w =
     runDdl D pid (addColumnStatement tableName col) (tableName, cd_name col) w"








section \<open>A small tenant for the examples\<close>

text \<open>
  The examples below run the engine on a tenant \<open>''p''\<close> whose database has the table
  \<open>users(id, name)\<close>, and the table \<open>t(c)\<close> as soon as an owner statement has been sent to
  it; every statement succeeds and returns no rows. The library functions that are
  parameters of the model are the simplest ones: no filter is parsed, no clause is built,
  and a number of magnitude \<open>2^53\<close> or more is printed as an infinity (no example reads the
  text of such a number). Request values are strings.
\<close>

definition catalogEntry :: "string \<Rightarrow> string \<Rightarrow> catalogRow" where
  "catalogEntry t c = \<lparr>table_name = t, column_name = c, data_type = ''text'',
     is_nullable = ''YES'', column_default = None\<rparr>"

definition demoDatabase :: "string database" where
  "demoDatabase =
     \<lparr>catalogOf = (\<lambda>hist pid.
          Inr ([catalogEntry ''users'' ''id'', catalogEntry ''users'' ''name''] @
               (if list_ex (\<lambda>st. s_role st = Owner) hist then [catalogEntry ''t'' ''c''] else []))),
      answer = (\<lambda>hist st. Inr \<lparr>qr_rows = [], qr_rowCount = Some 0\<rparr>)\<rparr>"

definition demoLib :: "string lib" where
  "demoLib =
     \<lparr>tableNameSchema = identRegex,
      parseSelect = (\<lambda>s. Inr None),
      parseOrder = (\<lambda>s. Inr None),
      parseFilters = (\<lambda>q. Inr []),
      buildWhereClause = (\<lambda>fs i. Inr ([], [])),
      buildOrderClause = (\<lambda>ord. Inr []),
      buildSelectColumns = (\<lambda>sel allowed. Inr ''*''),
      bigNumberText = (\<lambda>neg ds. if neg then ''-Infinity'' else ''Infinity'')\<rparr>"

definition demoColumn :: ColumnDefinition where
  "demoColumn = \<lparr>cd_name = ''c'', cd_type = ''text'', cd_nullable = None, cd_primaryKey = False,
     cd_unique = False, cd_defaultValue = None, cd_references = None\<rparr>"

definition priceColumn :: ColumnDefinition where
  "priceColumn = \<lparr>cd_name = ''price'', cd_type = ''numeric(10, 2)'', cd_nullable = Some False,
     cd_primaryKey = False, cd_unique = False, cd_defaultValue = Some ''-1.5'',
     cd_references = None\<rparr>"

definition emptyWorld :: "string world" where
  "emptyWorld = \<lparr>tableInfoCache = Map.empty, issued = []\<rparr>"


text \<open>The characters \<^verbatim>\<open>'\<close>, \<^verbatim>\<open>;\<close> and \<^verbatim>\<open>-\<close>, which occur in no statement template of
  the engine.\<close>

definition isSqlMark :: "char \<Rightarrow> bool" where
  "isSqlMark c = (c = CHR 0x27 \<or> c = CHR '';'' \<or> c = CHR ''-'')"

text \<open>Two dollar signs in a row somewhere in a text, and a text that has no such pair and
  does not end with a dollar sign (so that nothing put after it makes one).\<close>

fun doubleDollar :: "string \<Rightarrow> bool" where
  "doubleDollar [] = False"
| "doubleDollar [a] = False"
| "doubleDollar (a # b # r) = ((a = CHR ''$'' \<and> b = CHR ''$'') \<or> doubleDollar (b # r))"

definition dollarSafe :: "string \<Rightarrow> bool" where
  "dollarSafe s = (\<not> doubleDollar s \<and> (s = [] \<or> last s \<noteq> CHR ''$''))"

definition bobby :: string where
  "bobby = ''Robert'' @ [CHR 0x27] @ ''); DROP TABLE users;--''"

definition demoOptions :: "string selectOptions" where
  "demoOptions = \<lparr>so_select = None, so_order = None, so_limit = Some (Num 5000),
     so_offset = None, so_filters = None\<rparr>"

definition demoQuery :: "(string \<times> string) list" where
  "demoQuery = [(''limit'', ''abc''), (''offset'', ''-3x'')]"

text \<open>
  The wording of the specification for the string form of a default: a single-quoted
  string literal with no embedded unescaped quote. Inside a literal a quote is escaped by
  doubling it.
\<close>

fun noUnescapedQuote :: "string \<Rightarrow> bool" where
  "noUnescapedQuote [] = True"
| "noUnescapedQuote [c] = (c \<noteq> CHR 0x27)"
| "noUnescapedQuote (c # d # cs) =
     (if c = CHR 0x27 then d = CHR 0x27 \<and> noUnescapedQuote cs else noUnescapedQuote (d # cs))"

definition specStringLiteral :: "string \<Rightarrow> bool" where
  "specStringLiteral s =
     (2 \<le> length s \<and> hd s = CHR 0x27 \<and> last s = CHR 0x27 \<and> noUnescapedQuote (butlast (tl s)))"

text \<open>The literal \<^verbatim>\<open>'it''s'\<close>.\<close>

definition escapedQuoteLiteral :: string where
  "escapedQuoteLiteral = CHR 0x27 # ''it'' @ [CHR 0x27, CHR 0x27] @ ''s'' @ [CHR 0x27]"







section \<open>Identifiers\<close>

lemmas charclass_defs =
  isIdentStart_def isIdentChar_def isLower_def isUpper_def isDigit_def code_def

lemma code_toLowerChar: "isUpper c \<Longrightarrow> code (toLowerChar c) = code c + 32"
  by (simp add: toLowerChar_def isUpper_def code_def)

lemma isIdentChar_toLowerChar: "isIdentChar (toLowerChar c) = isIdentChar c"
proof (cases "isUpper c")
  case True
  then have "code (toLowerChar c) = code c + 32" by (rule code_toLowerChar)
  with True show ?thesis by (simp add: isIdentChar_def isLower_def isUpper_def isDigit_def)
next
  case False
  then show ?thesis by (simp add: toLowerChar_def)
qed

lemma isIdentStart_toLowerChar: "isIdentStart (toLowerChar c) = isIdentStart c"
proof (cases "isUpper c")
  case True
  then have "code (toLowerChar c) = code c + 32" by (rule code_toLowerChar)
  with True show ?thesis by (simp add: isIdentStart_def isLower_def isUpper_def)
next
  case False
  then show ?thesis by (simp add: toLowerChar_def)
qed

lemma identRegex_toLowerCase: "identRegex (toLowerCase s) = identRegex s"
  by (cases s)
    (simp_all add: toLowerCase_def list_all_iff isIdentChar_toLowerChar isIdentStart_toLowerChar)

lemma reserved_shape:
  "r \<in> set RESERVED_TABLE_NAMES \<Longrightarrow> identRegex r \<and> length r \<le> 63 \<and> r \<noteq> []"
  by (auto simp add: RESERVED_TABLE_NAMES_def charclass_defs)

lemma validateIdentifier_cases:
  "validateIdentifier name kind = Inr () \<or> (\<exists>m. validateIdentifier name kind = Inl (BadRequestError m))"
  by (simp add: validateIdentifier_def)

lemma validateIdentifier_ok_iff:
  "validateIdentifier name kind = Inr () \<longleftrightarrow>
     name \<noteq> [] \<and> identRegex name \<and> length name \<le> 63 \<and>
     \<not> (kind = Table \<and> toLowerCase name \<in> set RESERVED_TABLE_NAMES)"
  by (auto simp add: validateIdentifier_def)

text \<open>
  C6. \<^verbatim>\<open>validateIdentifier\<close> answers with a BadRequest error to the empty name, to every
  name that is not a letter or underscore followed by letters, digits and underscores,
  to every name of more than 63 characters and to every table name that is one of the
  four reserved words; it accepts \<open>users\<close> and rejects \<open>users; DROP TABLE x\<close>.
\<close>

theorem validateIdentifier_rejects:
  "(name = [] \<longrightarrow> isBadRequest (validateIdentifier name kind)) \<and>
   (\<not> identRegex name \<longrightarrow> isBadRequest (validateIdentifier name kind)) \<and>
   (length name > 63 \<longrightarrow> isBadRequest (validateIdentifier name kind)) \<and>
   (name \<in> set RESERVED_TABLE_NAMES \<longrightarrow> isBadRequest (validateIdentifier name Table)) \<and>
   validateIdentifier ''users'' kind = Inr () \<and>
   isBadRequest (validateIdentifier ''users; DROP TABLE x'' kind)"
proof -
  have a: "name = [] \<longrightarrow> isBadRequest (validateIdentifier name kind)"
    by (simp add: validateIdentifier_def)
  have b: "\<not> identRegex name \<longrightarrow> isBadRequest (validateIdentifier name kind)"
    by (simp add: validateIdentifier_def)
  have c: "length name > 63 \<longrightarrow> isBadRequest (validateIdentifier name kind)"
    by (simp add: validateIdentifier_def)
  have d: "name \<in> set RESERVED_TABLE_NAMES \<longrightarrow> isBadRequest (validateIdentifier name Table)"
    by (auto simp add: validateIdentifier_def RESERVED_TABLE_NAMES_def toLowerCase_def
        toLowerChar_def charclass_defs)
  have e: "validateIdentifier ''users'' kind = Inr ()"
    by (cases kind)
      (simp_all add: validateIdentifier_def RESERVED_TABLE_NAMES_def toLowerCase_def
        toLowerChar_def charclass_defs)
  have f: "isBadRequest (validateIdentifier ''users; DROP TABLE x'' kind)"
    by (simp add: validateIdentifier_def charclass_defs)
  from a b c d e f show ?thesis by blast
qed

theorem validateIdentifier_rejects_witness:
  "isBadRequest (validateIdentifier [] Column) \<and>
   \<not> identRegex ''9lives'' \<and> isBadRequest (validateIdentifier ''9lives'' Column) \<and>
   length (replicate 64 CHR ''a'') > 63 \<and>
   isBadRequest (validateIdentifier (replicate 64 CHR ''a'') Column) \<and>
   ''pg_toast'' \<in> set RESERVED_TABLE_NAMES \<and>
   isBadRequest (validateIdentifier ''pg_toast'' Table)"
proof -
  have 1: "\<not> identRegex ''9lives''" by (simp add: charclass_defs)
  have 2: "length (replicate 64 CHR ''a'') > 63" by simp
  have 3: "''pg_toast'' \<in> set RESERVED_TABLE_NAMES" by (simp add: RESERVED_TABLE_NAMES_def)
  from 1 2 3 validateIdentifier_rejects [of "[]" Column]
    validateIdentifier_rejects [of "''9lives''" Column]
    validateIdentifier_rejects [of "replicate 64 CHR ''a''" Column]
    validateIdentifier_rejects [of "''pg_toast''" Table]
  show ?thesis by blast
qed

text \<open>
  C10. The reserved words are refused for tables only, and in any letter case: a name
  whose lower-case form is one of \<open>pg_catalog\<close>, \<open>information_schema\<close>, \<open>pg_toast\<close>,
  \<open>pg_temp\<close> is rejected as a table name and accepted as a column name.
\<close>

theorem reserved_only_for_tables:
  "toLowerCase w \<in> set RESERVED_TABLE_NAMES \<Longrightarrow>
     isBadRequest (validateIdentifier w Table) \<and> validateIdentifier w Column = Inr ()"
proof -
  assume r: "toLowerCase w \<in> set RESERVED_TABLE_NAMES"
  from reserved_shape [OF r] have "identRegex w" "length w \<le> 63" "w \<noteq> []"
    by (simp_all add: identRegex_toLowerCase) (simp_all add: toLowerCase_def)
  with r show ?thesis by (simp add: validateIdentifier_def)
qed

theorem reserved_only_for_tables_witness:
  "toLowerCase ''PG_Catalog'' \<in> set RESERVED_TABLE_NAMES \<and>
   isBadRequest (validateIdentifier ''PG_Catalog'' Table) \<and>
   validateIdentifier ''PG_Catalog'' Column = Inr ()"
proof -
  have r: "toLowerCase ''PG_Catalog'' \<in> set RESERVED_TABLE_NAMES" by code_simp
  from r reserved_only_for_tables [OF r] show ?thesis by simp
qed

section \<open>Mutations need a filter\<close>

text \<open>
  C2. When the filters parsed from the query string of a PATCH or DELETE request are the
  empty list, the route answers with a BadRequest error and leaves the world as it was:
  no statement has been sent to any database, whatever the table.
\<close>

theorem mutation_requires_filter:
  "parseFilters L query = Inr [] \<Longrightarrow>
     isBadRequest (fst (patchRoute D L now pid table body query w)) \<and>
     snd (patchRoute D L now pid table body query w) = w \<and>
     isBadRequest (fst (deleteRoute D L now pid table query w)) \<and>
     snd (deleteRoute D L now pid table query w) = w"
  by (simp add: patchRoute_def deleteRoute_def split: option.split prod.split)

theorem mutation_requires_filter_witness:
  "parseFilters demoLib [] = Inr [] \<and>
   isBadRequest (fst (patchRoute demoDatabase demoLib 0 ''p'' ''users''
     (Some ([(''name'', ''B'')], False)) [] emptyWorld)) \<and>
   issued (snd (patchRoute demoDatabase demoLib 0 ''p'' ''users''
     (Some ([(''name'', ''B'')], False)) [] emptyWorld)) = [] \<and>
   isBadRequest (fst (deleteRoute demoDatabase demoLib 0 ''p'' ''users'' [] emptyWorld)) \<and>
   issued (snd (deleteRoute demoDatabase demoLib 0 ''p'' ''users'' [] emptyWorld)) = []"
proof -
  have h: "parseFilters demoLib [] = Inr []" by (simp add: demoLib_def)
  have e: "issued emptyWorld = []" by (simp add: emptyWorld_def)
  from h e mutation_requires_filter [OF h, of demoDatabase 0 "''p''" "''users''"
      "Some ([(''name'', ''B'')], False)" emptyWorld]
  show ?thesis by simp
qed

section \<open>The number of columns of a new table\<close>

text \<open>
  C9. \<^verbatim>\<open>createTable\<close> with no column or with more than 100 columns fails with a
  BadRequest error before any statement text exists, and nothing is sent to the
  database: the world is unchanged.
\<close>

theorem createTable_column_count:
  "cols = [] \<or> length cols > 100 \<Longrightarrow>
     isBadRequest (createTableStatement tableName cols ifNotExists) \<and>
     isBadRequest (fst (createTable D pid tableName cols ifNotExists w)) \<and>
     snd (createTable D pid tableName cols ifNotExists w) = w"
proof -
  assume h: "cols = [] \<or> length cols > 100"
  from validateIdentifier_cases [of tableName Table] h
  have "\<exists>m. createTableStatement tableName cols ifNotExists = Inl (BadRequestError m)"
    by (auto simp add: createTableStatement_def)
  then obtain m where "createTableStatement tableName cols ifNotExists = Inl (BadRequestError m)" ..
  then show ?thesis by (simp add: createTable_def runDdl_def)
qed

theorem createTable_column_count_witness:
  "isBadRequest (fst (createTable demoDatabase ''p'' ''t'' [] False emptyWorld)) \<and>
   issued (snd (createTable demoDatabase ''p'' ''t'' [] False emptyWorld)) = [] \<and>
   length (replicate 101 demoColumn) > 100 \<and>
   isBadRequest (fst (createTable demoDatabase ''p'' ''t'' (replicate 101 demoColumn) False emptyWorld)) \<and>
   issued (snd (createTable demoDatabase ''p'' ''t'' (replicate 101 demoColumn) False emptyWorld)) = []"
proof -
  have l: "length (replicate 101 demoColumn) > 100" by simp
  have e: "issued emptyWorld = []" by (simp add: emptyWorld_def)
  from l e createTable_column_count [of "[]" "''t''" False demoDatabase "''p''" emptyWorld]
    createTable_column_count [of "replicate 101 demoColumn" "''t''" False demoDatabase "''p''" emptyWorld]
  show ?thesis by simp
qed

section \<open>Values of a request and the statement text\<close>

lemma sublist_join: "x \<in> set xs \<Longrightarrow> sublist x (join sep xs)"
proof (induction sep xs rule: join.induct)
  case (1 sep)
  then show ?case by simp
next
  case (2 sep y)
  then show ?case by simp
next
  case (3 sep a b bs)
  show ?case
  proof (cases "x = a")
    case True
    then show ?thesis by simp
  next
    case False
    with 3 have "sublist x (join sep (b # bs))" by simp
    then obtain p q where "join sep (b # bs) = p @ x @ q" by (auto simp add: sublist_def)
    then have "join sep (a # b # bs) = (a @ sep @ p) @ x @ q" by simp
    then show ?thesis by (simp only: sublist_appendI)
  qed
qed

lemma in_set_join:
  "c \<in> set (join sep xs) \<Longrightarrow> c \<in> set sep \<or> (\<exists>x \<in> set xs. c \<in> set x)"
  by (induction sep xs rule: join.induct) auto

lemma in_set_showNat: "c \<in> set (showNat n) \<Longrightarrow> c \<in> set ''0123456789''"
proof (induction n rule: showNat.induct)
  case (1 n)
  have d: "\<And>k. k < 10 \<Longrightarrow> ''0123456789'' ! k \<in> set ''0123456789''"
    by (rule nth_mem) simp
  show ?case
  proof (cases "n < 10")
    case True
    with 1(2) have "c = ''0123456789'' ! n" by (subst (asm) showNat.simps) simp
    with d [OF True] show ?thesis by simp
  next
    case False
    with 1(2) have "c \<in> set (showNat (n div 10)) \<or> c = ''0123456789'' ! (n mod 10)"
      by (subst (asm) showNat.simps) auto
    moreover have "''0123456789'' ! (n mod 10) \<in> set ''0123456789''" by (rule d) simp
    ultimately show ?thesis using 1(1) [OF False] by blast
  qed
qed

lemma in_set_placeholder: "c \<in> set (placeholder i) \<Longrightarrow> c \<in> set ''$0123456789''"
  using in_set_showNat [of c i] by (auto simp add: placeholder_def)

lemma mark_not_placeholder: "isSqlMark c \<Longrightarrow> c \<notin> set (placeholder i)"
  using in_set_placeholder [of c i] by (auto simp add: isSqlMark_def)

lemma mark_in_quoteIdent: "isSqlMark c \<Longrightarrow> c \<in> set (quoteIdent k) \<Longrightarrow> c \<in> set k"
  by (auto simp add: isSqlMark_def quoteIdent_def)

lemma mark_not_in_insertSql:
  assumes m: "isSqlMark c" and t: "c \<notin> set table" and k: "\<forall>k \<in> set keys. c \<notin> set k"
  shows "c \<notin> set (insertSql table keys returning)"
proof
  assume "c \<in> set (insertSql table keys returning)"
  then have "c \<in> set (quoteIdent table) \<or> c \<in> set (join '', '' (map quoteIdent keys)) \<or>
      c \<in> set (join '', '' (map placeholder [1 ..< Suc (length keys)])) \<or>
      c \<in> set (CHR 0x0A # ''INSERT INTO VALUES RETURNING *(),'')"
    by (auto simp add: insertSql_def newline_def split: if_splits)
  moreover have "c \<notin> set (quoteIdent table)" using m t mark_in_quoteIdent by blast
  moreover have "c \<notin> set (join '', '' (map quoteIdent keys))"
  proof
    assume "c \<in> set (join '', '' (map quoteIdent keys))"
    from in_set_join [OF this] m obtain x where "x \<in> set keys" "c \<in> set (quoteIdent x)"
      by (auto simp add: isSqlMark_def)
    with m k mark_in_quoteIdent show False by blast
  qed
  moreover have "c \<notin> set (join '', '' (map placeholder [1 ..< Suc (length keys)]))"
  proof
    assume "c \<in> set (join '', '' (map placeholder [1 ..< Suc (length keys)]))"
    from in_set_join [OF this] m obtain i where "c \<in> set (placeholder i)"
      by (auto simp add: isSqlMark_def)
    with m mark_not_placeholder show False by blast
  qed
  moreover have "c \<notin> set (CHR 0x0A # ''INSERT INTO VALUES RETURNING *(),'')"
    using m by (auto simp add: isSqlMark_def)
  ultimately show False by blast
qed


lemma in_set_setClauses:
  "x \<in> set (setClauses keys) \<Longrightarrow> \<exists>k \<in> set keys. \<exists>i. x = quoteIdent k @ '' = '' @ placeholder i"
  by (auto simp add: setClauses_def dest: set_zip_leftD)

lemma mark_not_in_updateSql:
  assumes m: "isSqlMark c" and t: "c \<notin> set table" and k: "\<forall>k \<in> set keys. c \<notin> set k"
    and w: "c \<notin> set whereClause"
  shows "c \<notin> set (updateSql table keys whereClause returning)"
proof
  assume "c \<in> set (updateSql table keys whereClause returning)"
  then have "c \<in> set (quoteIdent table) \<or> c \<in> set (join '', '' (setClauses keys)) \<or>
      c \<in> set whereClause \<or> c \<in> set (CHR 0x0A # ''UPDATE SET RETURNING *'')"
    by (auto simp add: updateSql_def newline_def split: if_splits)
  moreover have "c \<notin> set (quoteIdent table)" using m t mark_in_quoteIdent by blast
  moreover have "c \<notin> set (join '', '' (setClauses keys))"
  proof
    assume "c \<in> set (join '', '' (setClauses keys))"
    from in_set_join [OF this] m obtain x where x: "x \<in> set (setClauses keys)" "c \<in> set x"
      by (auto simp add: isSqlMark_def)
    from in_set_setClauses [OF x(1)] obtain k0 i where
      k0: "k0 \<in> set keys" "x = quoteIdent k0 @ '' = '' @ placeholder i" by blast
    with x(2) m have "c \<in> set (quoteIdent k0) \<or> c \<in> set (placeholder i)"
      by (auto simp add: isSqlMark_def)
    with m k k0(1) mark_in_quoteIdent mark_not_placeholder show False by blast
  qed
  moreover have "c \<notin> set (CHR 0x0A # ''UPDATE SET RETURNING *'')"
    using m by (auto simp add: isSqlMark_def)
  ultimately show False using w by blast
qed

lemma placeholder_in_insertSql:
  assumes "i < length keys"
  shows "sublist (placeholder (Suc i)) (insertSql table keys returning)"
proof -
  from assms have "Suc i \<in> set [1 ..< Suc (length keys)]"
    by (simp del: upt_Suc)
  then have "placeholder (Suc i) \<in> set (map placeholder [1 ..< Suc (length keys)])"
    by (simp only: set_map image_eqI)
  then have "sublist (placeholder (Suc i)) (join '', '' (map placeholder [1 ..< Suc (length keys)]))"
    by (rule sublist_join)
  then obtain p q where
    "join '', '' (map placeholder [1 ..< Suc (length keys)]) = p @ placeholder (Suc i) @ q"
    by (auto simp add: sublist_def)
  then have "\<exists>a b. insertSql table keys returning = a @ placeholder (Suc i) @ b"
    unfolding insertSql_def by (metis append.assoc)
  then show ?thesis by (auto simp add: sublist_def)
qed

lemma setClause_in_updateSql:
  assumes "i < length keys"
  shows "sublist (quoteIdent (keys ! i) @ '' = '' @ placeholder (Suc i))
           (updateSql table keys whereClause returning)"
proof -
  from assms have "[1 ..< Suc (length keys)] ! i = Suc i"
    by (simp del: upt_Suc)
  with assms have "(keys ! i, Suc i) \<in> set (zip keys [1 ..< Suc (length keys)])"
    unfolding in_set_zip by (intro exI [of _ i]) (simp del: upt_Suc)
  then have "(\<lambda>(col, i). quoteIdent col @ '' = '' @ placeholder i) (keys ! i, Suc i)
      \<in> set (setClauses keys)"
    unfolding setClauses_def set_map by (rule imageI)
  then have "quoteIdent (keys ! i) @ '' = '' @ placeholder (Suc i) \<in> set (setClauses keys)"
    by simp
  then have "sublist (quoteIdent (keys ! i) @ '' = '' @ placeholder (Suc i)) (join '', '' (setClauses keys))"
    by (rule sublist_join)
  then obtain p q where
    "join '', '' (setClauses keys) = p @ (quoteIdent (keys ! i) @ '' = '' @ placeholder (Suc i)) @ q"
    by (auto simp add: sublist_def)
  then have "\<exists>a b. updateSql table keys whereClause returning =
      a @ (quoteIdent (keys ! i) @ '' = '' @ placeholder (Suc i)) @ b"
    unfolding updateSql_def by (metis append.assoc)
  then show ?thesis unfolding sublist_def by blast
qed

lemma sublist_doubleDollar: "sublist ''$$'' s \<longleftrightarrow> doubleDollar s"
proof (induction s rule: doubleDollar.induct)
  case 1
  then show ?case by simp
next
  case (2 a)
  then show ?case by (auto simp add: sublist_Cons_right)
next
  case (3 a b r)
  then show ?case by (auto simp add: sublist_Cons_right)
qed

lemma doubleDollar_append:
  "doubleDollar (xs @ ys) \<longleftrightarrow>
     doubleDollar xs \<or> doubleDollar ys \<or>
     (xs \<noteq> [] \<and> ys \<noteq> [] \<and> last xs = CHR ''$'' \<and> hd ys = CHR ''$'')"
proof (induction xs rule: doubleDollar.induct)
  case 1
  then show ?case by simp
next
  case (2 a)
  then show ?case by (cases ys) auto
next
  case (3 a b r)
  then show ?case by auto
qed

lemma dollarSafe_append: "dollarSafe xs \<Longrightarrow> dollarSafe ys \<Longrightarrow> dollarSafe (xs @ ys)"
  by (cases "ys = []") (auto simp add: dollarSafe_def doubleDollar_append)

lemma doubleDollar_between:
  assumes "dollarSafe h" and "\<not> doubleDollar m" and "dollarSafe e" and "e \<noteq> []"
    and "hd e \<noteq> CHR ''$''"
  shows "\<not> doubleDollar (h @ m @ e)"
proof -
  from assms(2,3,4,5) have "\<not> doubleDollar (m @ e)"
    by (auto simp add: doubleDollar_append dollarSafe_def)
  with assms(1) show ?thesis
    by (auto simp add: doubleDollar_append dollarSafe_def)
qed

lemma no_dollar_safe: "CHR ''$'' \<notin> set s \<Longrightarrow> dollarSafe s"
proof -
  assume n: "CHR ''$'' \<notin> set s"
  have "\<not> doubleDollar s"
  proof
    assume "doubleDollar s"
    then have "sublist ''$$'' s" by (simp add: sublist_doubleDollar)
    then have "set ''$$'' \<subseteq> set s" by (rule set_mono_sublist)
    with n show False by simp
  qed
  moreover from n have "s = [] \<or> last s \<noteq> CHR ''$''" by (metis last_in_set)
  ultimately show ?thesis by (simp add: dollarSafe_def)
qed

lemma showNat_nonempty: "showNat n \<noteq> []"
  by (subst showNat.simps) simp

lemma placeholder_safe: "dollarSafe (placeholder i)"
proof -
  have d: "CHR ''$'' \<notin> set (showNat i)" using in_set_showNat [of "CHR ''$''" i] by auto
  then have "dollarSafe (showNat i)" by (rule no_dollar_safe)
  moreover have "hd (showNat i) \<noteq> CHR ''$''" using d showNat_nonempty [of i]
    by (metis hd_in_set)
  ultimately show ?thesis using showNat_nonempty [of i]
    by (cases "showNat i") (auto simp add: placeholder_def dollarSafe_def)
qed

lemma join_safe:
  "dollarSafe sep \<Longrightarrow> \<forall>x \<in> set xs. dollarSafe x \<Longrightarrow> dollarSafe (join sep xs)"
proof (induction sep xs rule: join.induct)
  case (1 sep)
  then show ?case by (simp add: dollarSafe_def)
next
  case (2 sep x)
  then show ?case by simp
next
  case (3 sep x y ys)
  then have "dollarSafe x" "dollarSafe (sep @ join sep (y # ys))"
    by (simp_all add: dollarSafe_append)
  then show ?case by (simp add: dollarSafe_append)
qed

lemma quoteIdent_safe: "CHR ''$'' \<notin> set k \<Longrightarrow> dollarSafe (quoteIdent k)"
  by (rule no_dollar_safe) (simp add: quoteIdent_def)

lemma insertSql_safe:
  assumes t: "CHR ''$'' \<notin> set table" and k: "\<forall>k \<in> set keys. CHR ''$'' \<notin> set k"
  shows "dollarSafe (insertSql table keys returning)"
proof -
  have a: "dollarSafe (join '', '' (map quoteIdent keys))"
    using k by (intro join_safe) (auto simp add: quoteIdent_safe no_dollar_safe)
  have b: "dollarSafe (join '', '' (map placeholder [1 ..< Suc (length keys)]))"
    by (intro join_safe) (auto simp add: placeholder_safe no_dollar_safe)
  have f: "\<And>s. CHR ''$'' \<notin> set s \<Longrightarrow> dollarSafe s" by (rule no_dollar_safe)
  show ?thesis
    unfolding insertSql_def newline_def
    by (intro dollarSafe_append a b quoteIdent_safe t f) (simp_all)
qed

lemma setClause_safe:
  "x \<in> set (setClauses keys) \<Longrightarrow> \<forall>k \<in> set keys. CHR ''$'' \<notin> set k \<Longrightarrow> dollarSafe x"
proof -
  assume "x \<in> set (setClauses keys)" and k: "\<forall>k \<in> set keys. CHR ''$'' \<notin> set k"
  then obtain k0 i where "k0 \<in> set keys" "x = quoteIdent k0 @ '' = '' @ placeholder i"
    by (auto simp add: setClauses_def dest: set_zip_leftD)
  moreover from this k have "dollarSafe (quoteIdent k0)" by (simp add: quoteIdent_safe)
  moreover have "dollarSafe '' = ''" by (rule no_dollar_safe) simp
  ultimately show "dollarSafe x"
    by (simp only: dollarSafe_append placeholder_safe)
qed

lemma updateSql_safe:
  assumes t: "CHR ''$'' \<notin> set table" and k: "\<forall>k \<in> set keys. CHR ''$'' \<notin> set k"
    and w: "\<not> sublist ''$$'' wc"
  shows "\<not> sublist ''$$'' (updateSql table keys wc returning)"
proof -
  have a: "dollarSafe (join '', '' (setClauses keys))"
    using k by (intro join_safe) (auto simp add: setClause_safe no_dollar_safe)
  have f: "\<And>s. CHR ''$'' \<notin> set s \<Longrightarrow> dollarSafe s" by (rule no_dollar_safe)
  have h: "dollarSafe (newline @ ''      UPDATE '' @ quoteIdent table @ newline @
     ''      SET '' @ join '', '' (setClauses keys) @ newline @ ''      '')"
    unfolding newline_def by (intro dollarSafe_append a quoteIdent_safe t f) simp_all
  have e: "dollarSafe (newline @ ''      '' @ (if returning then ''RETURNING *'' else []) @ newline @ ''    '')"
    by (rule no_dollar_safe) (simp add: newline_def)
  have u: "updateSql table keys wc returning =
      (newline @ ''      UPDATE '' @ quoteIdent table @ newline @
       ''      SET '' @ join '', '' (setClauses keys) @ newline @ ''      '') @ wc @
      (newline @ ''      '' @ (if returning then ''RETURNING *'' else []) @ newline @ ''    '')"
    by (simp add: updateSql_def)
  have hd: "hd (newline @ ''      '' @ (if returning then ''RETURNING *'' else []) @ newline @ ''    '') \<noteq> CHR ''$''"
    by (simp add: newline_def)
  from w have w': "\<not> doubleDollar wc" by (simp add: sublist_doubleDollar)
  have ne: "newline @ ''      '' @ (if returning then ''RETURNING *'' else []) @ newline @ ''    '' \<noteq> []"
    by (simp add: newline_def)
  from doubleDollar_between [OF h w' e ne hd] show ?thesis
    unfolding u sublist_doubleDollar .
qed

text \<open>
  C1, as the code has it. The text of an INSERT is made of the table name, the keys of
  the row and the \<^verbatim>\<open>returning\<close> flag, the text of an UPDATE of the table name, the keys
  of the payload, the flag and the WHERE clause that \<^verbatim>\<open>buildWhereClause\<close> returns for the
  filters and the first free index: no value of the payload takes part in either. The
  values are the parameter vector, in the order of the keys (followed, for an UPDATE, by
  the values \<^verbatim>\<open>buildWhereClause\<close> returns), and the text holds the placeholder of each
  position. A string that contains \<^verbatim>\<open>'\<close>, \<^verbatim>\<open>;\<close> or \<^verbatim>\<open>-\<close> is no part of the text
  when that character is in neither the table name nor a key (nor, for an UPDATE, in
  the WHERE clause); a string that contains \<^verbatim>\<open>$$\<close> is no part of the text when no
  dollar sign is in the table name or a key (and, for an UPDATE, the WHERE clause has no
  \<^verbatim>\<open>$$\<close>).
\<close>

theorem payload_values_are_parameters:
  "(insertStatement table allowed row returning = Inr (sql, ps) \<longrightarrow>
      sql = insertSql table (map fst row) returning \<and> ps = map snd row \<and>
      (\<forall>i < length row. sublist (placeholder (Suc i)) sql)) \<and>
   (updateStatement L table allowed vals filters returning = Inr (usql, ups) \<longrightarrow>
      (\<exists>wc wv. buildWhereClause L filters (Some (Suc (length vals))) = Inr (wc, wv) \<and>
         usql = updateSql table (map fst vals) wc returning \<and> ups = map snd vals @ wv) \<and>
      (\<forall>i < length vals.
         sublist (quoteIdent (fst (vals ! i)) @ '' = '' @ placeholder (Suc i)) usql)) \<and>
   (isSqlMark c \<and> c \<in> set v \<and> c \<notin> set table \<and> (\<forall>k \<in> set keys. c \<notin> set k) \<longrightarrow>
      \<not> sublist v (insertSql table keys returning) \<and>
      (c \<notin> set wc \<longrightarrow> \<not> sublist v (updateSql table keys wc returning))) \<and>
   (sublist ''$$'' v \<and> CHR ''$'' \<notin> set table \<and> (\<forall>k \<in> set keys. CHR ''$'' \<notin> set k) \<longrightarrow>
      \<not> sublist v (insertSql table keys returning) \<and>
      (\<not> sublist ''$$'' wc \<longrightarrow> \<not> sublist v (updateSql table keys wc returning)))"
proof (intro conjI impI)
  assume a: "insertStatement table allowed row returning = Inr (sql, ps)"
  then show s: "sql = insertSql table (map fst row) returning" and "ps = map snd row"
    by (auto simp add: insertStatement_def split: sum.splits)
  show "\<forall>i < length row. sublist (placeholder (Suc i)) sql"
    unfolding s using placeholder_in_insertSql [of _ "map fst row" table returning] by simp
next
  assume a: "updateStatement L table allowed vals filters returning = Inr (usql, ups)"
  then obtain wc wv where w: "buildWhereClause L filters (Some (Suc (length vals))) = Inr (wc, wv)"
    and u: "usql = updateSql table (map fst vals) wc returning" and p: "ups = map snd vals @ wv"
    by (auto simp add: updateStatement_def split: sum.splits)
  then show "\<exists>wc wv. buildWhereClause L filters (Some (Suc (length vals))) = Inr (wc, wv) \<and>
         usql = updateSql table (map fst vals) wc returning \<and> ups = map snd vals @ wv"
    by blast
  show "\<forall>i < length vals. sublist (quoteIdent (fst (vals ! i)) @ '' = '' @ placeholder (Suc i)) usql"
    unfolding u using setClause_in_updateSql [of _ "map fst vals" table wc returning] by simp
next
  assume h: "isSqlMark c \<and> c \<in> set v \<and> c \<notin> set table \<and> (\<forall>k \<in> set keys. c \<notin> set k)"
  then have "c \<notin> set (insertSql table keys returning)"
    using mark_not_in_insertSql by blast
  with h show "\<not> sublist v (insertSql table keys returning)"
    using set_mono_sublist by blast
next
  assume h: "isSqlMark c \<and> c \<in> set v \<and> c \<notin> set table \<and> (\<forall>k \<in> set keys. c \<notin> set k)"
    and w: "c \<notin> set wc"
  then have "c \<notin> set (updateSql table keys wc returning)"
    using mark_not_in_updateSql by blast
  with h show "\<not> sublist v (updateSql table keys wc returning)"
    using set_mono_sublist by blast
next
  assume h: "sublist ''$$'' v \<and> CHR ''$'' \<notin> set table \<and> (\<forall>k \<in> set keys. CHR ''$'' \<notin> set k)"
  then have "dollarSafe (insertSql table keys returning)" by (simp add: insertSql_safe)
  then have n: "\<not> sublist ''$$'' (insertSql table keys returning)"
    by (simp add: sublist_doubleDollar dollarSafe_def)
  show "\<not> sublist v (insertSql table keys returning)"
  proof
    assume "sublist v (insertSql table keys returning)"
    with h have "sublist ''$$'' (insertSql table keys returning)"
      by (blast intro: sublist_order.order.trans)
    with n show False ..
  qed
next
  assume h: "sublist ''$$'' v \<and> CHR ''$'' \<notin> set table \<and> (\<forall>k \<in> set keys. CHR ''$'' \<notin> set k)"
    and w: "\<not> sublist ''$$'' wc"
  then have n: "\<not> sublist ''$$'' (updateSql table keys wc returning)"
    by (simp add: updateSql_safe)
  show "\<not> sublist v (updateSql table keys wc returning)"
  proof
    assume "sublist v (updateSql table keys wc returning)"
    with h have "sublist ''$$'' (updateSql table keys wc returning)"
      by (blast intro: sublist_order.order.trans)
    with n show False ..
  qed
qed

theorem payload_values_are_parameters_witness:
  "insertStatement ''users'' [''id'', ''name''] [(''name'', bobby)] True =
     Inr (insertSql ''users'' [''name''] True, [bobby]) \<and>
   sublist ''$1'' (insertSql ''users'' [''name''] True) \<and>
   updateStatement demoLib ''users'' [''id'', ''name''] [(''name'', bobby)] [] True =
     Inr (updateSql ''users'' [''name''] [] True, [bobby]) \<and>
   sublist (quoteIdent ''name'' @ '' = $1'') (updateSql ''users'' [''name''] [] True) \<and>
   isSqlMark CHR 0x27 \<and> CHR 0x27 \<in> set bobby \<and>
   \<not> sublist bobby (insertSql ''users'' [''name''] True) \<and>
   \<not> sublist bobby (updateSql ''users'' [''name''] [] True) \<and>
   sublist ''$$'' ''$$x$$'' \<and>
   \<not> sublist ''$$x$$'' (insertSql ''users'' [''name''] True) \<and>
   \<not> sublist ''$$x$$'' (updateSql ''users'' [''name''] [] True)"
proof -
  have i: "insertStatement ''users'' [''id'', ''name''] [(''name'', bobby)] True =
     Inr (insertSql ''users'' [''name''] True, [bobby])"
    by (simp add: insertStatement_def checkPayloadColumns_def)
  have u: "updateStatement demoLib ''users'' [''id'', ''name''] [(''name'', bobby)] [] True =
     Inr (updateSql ''users'' [''name''] [] True, [bobby])"
    by (simp add: updateStatement_def checkPayloadColumns_def checkFilterColumns_def demoLib_def)
  have m: "isSqlMark CHR 0x27 \<and> CHR 0x27 \<in> set bobby \<and> CHR 0x27 \<notin> set ''users'' \<and>
      (\<forall>k \<in> set [''name'']. CHR 0x27 \<notin> set k)"
    by (simp add: isSqlMark_def bobby_def)
  have e: "CHR 0x27 \<notin> set ([] :: string)" by simp
  have p: "placeholder (Suc 0) = ''$1''" by code_simp
  note T = payload_values_are_parameters [where table = "''users''"
      and allowed = "[''id'', ''name'']" and row = "[(''name'', bobby)]" and returning = True
      and sql = "insertSql ''users'' [''name''] True" and ps = "[bobby]" and L = demoLib
      and vals = "[(''name'', bobby)]" and filters = "[]"
      and usql = "updateSql ''users'' [''name''] [] True" and ups = "[bobby]"
      and c = "CHR 0x27" and v = bobby and keys = "[''name'']" and wc = "[]"]
  from T i have "sublist (placeholder (Suc 0)) (insertSql ''users'' [''name''] True)" by simp
  then have a: "sublist ''$1'' (insertSql ''users'' [''name''] True)" by (simp only: p)
  from T u have "sublist (quoteIdent ''name'' @ '' = '' @ placeholder (Suc 0))
      (updateSql ''users'' [''name''] [] True)" by simp
  then have b: "sublist (quoteIdent ''name'' @ '' = $1'') (updateSql ''users'' [''name''] [] True)"
    by (simp only: p append.simps)
  from T m have c: "\<not> sublist bobby (insertSql ''users'' [''name''] True)" by blast
  from T m e have d: "\<not> sublist bobby (updateSql ''users'' [''name''] [] True)" by blast
  have dd: "sublist ''$$'' ''$$x$$''" by code_simp
  have dm: "CHR ''$'' \<notin> set ''users'' \<and> (\<forall>k \<in> set [''name'']. CHR ''$'' \<notin> set k)" by simp
  have de: "\<not> sublist ''$$'' ([] :: string)" by simp
  note U = payload_values_are_parameters [where table = "''users''"
      and allowed = "[''id'', ''name'']" and row = "[(''name'', bobby)]" and returning = True
      and sql = "insertSql ''users'' [''name''] True" and ps = "[bobby]" and L = demoLib
      and vals = "[(''name'', bobby)]" and filters = "[]"
      and usql = "updateSql ''users'' [''name''] [] True" and ups = "[bobby]"
      and c = "CHR 0x27" and v = "''$$x$$''" and keys = "[''name'']" and wc = "[]"]
  from U dd dm have f: "\<not> sublist ''$$x$$'' (insertSql ''users'' [''name''] True)" by blast
  from U dd dm de have g: "\<not> sublist ''$$x$$'' (updateSql ''users'' [''name''] [] True)"
    by blast
  from i u a b c d m dd f g show ?thesis by blast
qed

text \<open>
  C1, as it is stated, fails: the value \<open>INSERT\<close> of a row is sent as a parameter and is
  all the same a part of the statement text, which begins with that word.
\<close>

theorem insert_sql_contains_value_counterexample:
  "s_params (last (issued (snd (crudInsert demoDatabase 0 ''p'' ''users''
      [[(''name'', ''INSERT'')]] False emptyWorld)))) = [''INSERT''] \<and>
   sublist ''INSERT'' (s_sql (last (issued (snd (crudInsert demoDatabase 0 ''p'' ''users''
      [[(''name'', ''INSERT'')]] False emptyWorld)))))"
  by code_simp

section \<open>Rows before an invalid row\<close>

text \<open>
  What holds of \<^verbatim>\<open>insert\<close>: when every key of every row is a column of the table and the
  database answers every statement, one INSERT is sent for each row, in order, with the
  values of the row as its parameters; when some row has a key that is no column, the
  request does not succeed (no key is dropped).
\<close>

lemma insertStatement_valid:
  "set (map fst row) \<subseteq> set allowed \<Longrightarrow>
     insertStatement table allowed row returning =
       Inr (insertSql table (map fst row) returning, map snd row)"
  by (auto simp add: insertStatement_def checkPayloadColumns_def find_None_iff
      split: option.splits)

lemma insertStatement_invalid:
  "\<not> set (map fst row) \<subseteq> set allowed \<Longrightarrow>
     isBadRequest (insertStatement table allowed row returning)"
  by (auto simp add: insertStatement_def checkPayloadColumns_def find_None_iff
      split: option.splits)

lemma insertRows_valid:
  assumes "\<forall>hist st. isOk (answer D hist st)"
    and "\<forall>row \<in> set rows. set (map fst row) \<subseteq> set allowed"
  shows "isOk (fst (insertRows D pid table allowed returning rows results w)) \<and>
     issued (snd (insertRows D pid table allowed returning rows results w)) =
       issued w @ map (\<lambda>row. \<lparr>s_role = App, s_project = pid,
         s_sql = insertSql table (map fst row) returning, s_params = map snd row\<rparr>) rows"
  using assms(2)
proof (induction rows arbitrary: results w)
  case Nil
  then show ?case by simp
next
  case (Cons row rows)
  let ?st = "\<lparr>s_role = App, s_project = pid, s_sql = insertSql table (map fst row) returning,
      s_params = map snd row\<rparr>"
  from Cons.prems have v: "insertStatement table allowed row returning =
      Inr (insertSql table (map fst row) returning, map snd row)"
    by (simp add: insertStatement_valid)
  from assms(1) obtain res where res: "answer D (issued w) ?st = Inr res"
    by (metis isOk.elims(2))
  from Cons.prems have r: "\<forall>row \<in> set rows. set (map fst row) \<subseteq> set allowed" by simp
  show ?case
    using Cons.IH [OF r] v res
    by (simp add: queryAsApp_def queryAs_def Let_def)
qed

lemma insertRows_invalid:
  assumes "\<exists>row \<in> set rows. \<not> set (map fst row) \<subseteq> set allowed"
  shows "\<not> isOk (fst (insertRows D pid table allowed returning rows results w))"
  using assms
proof (induction rows arbitrary: results w)
  case Nil
  then show ?case by simp
next
  case (Cons row rows)
  show ?case
  proof (cases "set (map fst row) \<subseteq> set allowed")
    case False
    from insertStatement_invalid [OF this, of table returning]
    obtain m where "insertStatement table allowed row returning = Inl (BadRequestError m)"
      by (metis isBadRequest.elims(2))
    then show ?thesis by simp
  next
    case True
    with Cons.prems have "\<exists>row \<in> set rows. \<not> set (map fst row) \<subseteq> set allowed" by auto
    from Cons.IH [OF this] show ?thesis
      by (auto simp add: insertStatement_valid [OF True] split: sum.splits prod.splits)
  qed
qed

text \<open>
  C3, at a request of two rows of which the second has the unknown key \<open>nope\<close>: the
  answer is the BadRequest error, and by then the INSERT of the first row has been sent.
\<close>

theorem insert_partial_on_invalid_row:
  "fst (crudInsert demoDatabase 0 ''p'' ''users''
      [[(''name'', ''A'')], [(''nope'', ''B'')]] False emptyWorld)
     = Inl (BadRequestError ''Invalid column: nope'') \<and>
   issued (snd (crudInsert demoDatabase 0 ''p'' ''users''
      [[(''name'', ''A'')], [(''nope'', ''B'')]] False emptyWorld)) =
     [\<lparr>s_role = App, s_project = ''p'', s_sql = CATALOG_QUERY, s_params = []\<rparr>,
      \<lparr>s_role = App, s_project = ''p'', s_sql = insertSql ''users'' [''name''] False,
       s_params = [''A'']\<rparr>]"
  by code_simp

section \<open>Limit and offset\<close>

lemma selectStatement_limit_text:
  assumes "selectStatement L cfg table allowed opts = Inr (sql, ps)"
  shows "sublist (limitClause L (effectiveLimit cfg (so_limit opts))
           (effectiveOffset (so_offset opts))) sql"
proof -
  from assms obtain a b c d where
    "sql = selectSql L a b c d (effectiveLimit cfg (so_limit opts))
       (effectiveOffset (so_offset opts))"
    by (auto simp add: selectStatement_def split: sum.splits prod.splits)
  then show ?thesis by (simp only: selectSql_def sublist_appendI)
qed

lemma limitClause_limit_text:
  "sublist (''LIMIT '' @ showNumber L lim @ '' OFFSET '') (limitClause L lim off)"
proof -
  have "limitClause L lim off = [] @ (''LIMIT '' @ showNumber L lim @ '' OFFSET '') @ showNumber L off"
    by (simp add: limitClause_def)
  then show ?thesis by (simp only: sublist_appendI)
qed

lemma truthyParam_NaN:
  "map_of query k = Some s \<Longrightarrow> parseInt10 s = NaN \<Longrightarrow>
     map_option parseInt10 (truthyParam query k) = None \<or>
     map_option parseInt10 (truthyParam query k) = Some NaN"
  by (simp add: truthyParam_def)

lemma parseInt10_empty: "parseInt10 [] = NaN"
  by (simp add: parseInt10_def)

lemma truthyParam_parsed:
  "map_of query k = Some s \<Longrightarrow> parseInt10 s \<noteq> NaN \<Longrightarrow>
     map_option parseInt10 (truthyParam query k) = Some (parseInt10 s)"
  by (auto simp add: truthyParam_def parseInt10_empty)

subsection \<open>What \<open>parseInt10\<close> and \<open>showInt\<close> compute\<close>

lemma digit_code: "isDigit c \<Longrightarrow> 48 \<le> code c \<and> code c \<le> 57"
  by (simp add: isDigit_def)

lemma digit_plain:
  "isDigit c \<Longrightarrow> \<not> isSpace c \<and> c \<noteq> CHR ''-'' \<and> c \<noteq> CHR ''+''"
  by (auto simp add: isDigit_def isSpace_def code_def)

lemma digitsValue_nonneg:
  "list_all isDigit ds \<Longrightarrow> 0 \<le> acc \<Longrightarrow> 0 \<le> digitsValue ds acc"
proof (induction ds arbitrary: acc)
  case Nil
  then show ?case by simp
next
  case (Cons c ds)
  from Cons.prems(1) have "48 \<le> code c" by (simp add: digit_code)
  with Cons.prems(2) have "0 \<le> 10 * acc + (int (code c) - 48)" by simp
  with Cons show ?case by simp
qed

lemma digitsValue_snoc:
  "digitsValue (ds @ [c]) acc = 10 * digitsValue ds acc + (int (code c) - 48)"
  by (induction ds arbitrary: acc) simp_all

lemma code_digit_char: "k < 10 \<Longrightarrow> code (''0123456789'' ! k) = 48 + k"
proof -
  assume "k < 10"
  then have "k \<in> {0, 1, 2, 3, 4, 5, 6, 7, 8, 9}" by auto
  then show ?thesis by (auto simp add: code_def)
qed

lemma showNat_value: "digitsValue (showNat k) 0 = int k"
proof (induction k rule: showNat.induct)
  case (1 n)
  show ?case
  proof (cases "n < 10")
    case True
    then show ?thesis by (subst showNat.simps) (simp add: code_digit_char)
  next
    case False
    have m: "n mod 10 < 10" by simp
    from False 1 have "digitsValue (showNat (n div 10)) 0 = int (n div 10)" by simp
    with False show ?thesis
      by (subst showNat.simps) (simp add: digitsValue_snoc code_digit_char [OF m] zdiv_int zmod_int)
  qed
qed

lemma parseInt10_digits:
  assumes d: "ds \<noteq> []" "list_all isDigit ds" and r: "rest = [] \<or> \<not> isDigit (hd rest)"
  shows "parseInt10 (ds @ rest) =
           (if digitsValue ds 0 \<le> MAX_SAFE_INTEGER then Num (digitsValue ds 0) else Big False ds)"
    and "parseInt10 (CHR ''-'' # ds @ rest) =
           (if digitsValue ds 0 \<le> MAX_SAFE_INTEGER then Num (- digitsValue ds 0) else Big True ds)"
proof -
  from d obtain c cs where ds: "ds = c # cs" and c: "isDigit c" by (cases ds) auto
  have t: "takeWhile isDigit (ds @ rest) = ds"
    using d(2) r by (cases rest) (auto simp add: list_all_iff takeWhile_append2)
  from c have p: "\<not> isSpace c" "c \<noteq> CHR ''-''" "c \<noteq> CHR ''+''" by (simp_all add: digit_plain)
  have m: "\<not> isSpace CHR ''-''" by (simp add: isSpace_def code_def)
  show "parseInt10 (ds @ rest) =
           (if digitsValue ds 0 \<le> MAX_SAFE_INTEGER then Num (digitsValue ds 0) else Big False ds)"
    using t p d(1) by (simp add: parseInt10_def ds Let_def)
  show "parseInt10 (CHR ''-'' # ds @ rest) =
           (if digitsValue ds 0 \<le> MAX_SAFE_INTEGER then Num (- digitsValue ds 0) else Big True ds)"
    using t m d(1) by (simp add: parseInt10_def Let_def)
qed

lemma parseInt10_no_number:
  "s = [] \<or> (\<not> isSpace (hd s) \<and> hd s \<noteq> CHR ''-'' \<and> hd s \<noteq> CHR ''+'' \<and> \<not> isDigit (hd s))
     \<Longrightarrow> parseInt10 s = NaN"
  by (cases s) (auto simp add: parseInt10_def Let_def)

lemma parseInt10_safe: "parseInt10 s = Num n \<Longrightarrow> safeInt n"
proof -
  assume a: "parseInt10 s = Num n"
  define u where "u = (case dropWhile isSpace s of [] \<Rightarrow> []
    | c # r \<Rightarrow> if c = CHR ''-'' \<or> c = CHR ''+'' then r else dropWhile isSpace s)"
  define ds where "ds = takeWhile isDigit u"
  have "list_all isDigit ds" by (auto simp add: ds_def list_all_iff dest: set_takeWhileD)
  then have nn: "0 \<le> digitsValue ds 0" by (simp add: digitsValue_nonneg)
  from a have "digitsValue ds 0 \<le> MAX_SAFE_INTEGER \<and> (n = digitsValue ds 0 \<or> n = - digitsValue ds 0)"
    by (auto simp add: parseInt10_def Let_def ds_def u_def split: if_splits)
  with nn show "safeInt n" by (auto simp add: safeInt_def MAX_SAFE_INTEGER_def)
qed

subsection \<open>The effective limit\<close>

text \<open>
  C5, as the code has it. Under a configuration that \<^verbatim>\<open>env.ts\<close> accepts: a requested limit
  other than zero gives the smaller of it and the configured maximum (the maximum for a
  number of \<open>2^53\<close> or more, the number itself for one of \<open>-2^53\<close> or less); no limit, the
  limit 0 and the limit \<^verbatim>\<open>NaN\<close> give the smaller of the configured default and the
  maximum, which is the default when the default does not exceed the maximum. That number
  is what the statement text carries between \<^verbatim>\<open>LIMIT\<close> and \<^verbatim>\<open>OFFSET\<close>, an integer below
  \<open>2^53\<close> in magnitude as its decimal digits, which read back give the integer.
\<close>

theorem effective_limit_clamped:
  assumes "validConfig cfg"
  shows
  "(safeInt n \<and> n \<noteq> 0 \<longrightarrow>
      effectiveLimit cfg (Some (Num n)) = Num (min n (maxRowsPerQuery cfg))) \<and>
   effectiveLimit cfg (Some (Big False ds)) = Num (maxRowsPerQuery cfg) \<and>
   effectiveLimit cfg (Some (Big True ds)) = Big True ds \<and>
   effectiveLimit cfg None = Num (min (defaultRowsLimit cfg) (maxRowsPerQuery cfg)) \<and>
   effectiveLimit cfg (Some (Num 0)) = Num (min (defaultRowsLimit cfg) (maxRowsPerQuery cfg)) \<and>
   effectiveLimit cfg (Some NaN) = Num (min (defaultRowsLimit cfg) (maxRowsPerQuery cfg)) \<and>
   (defaultRowsLimit cfg \<le> maxRowsPerQuery cfg \<longrightarrow>
      effectiveLimit cfg None = Num (defaultRowsLimit cfg)) \<and>
   (selectStatement L cfg table allowed opts = Inr (sql, ps) \<longrightarrow>
      sublist (''LIMIT '' @ showNumber L (effectiveLimit cfg (so_limit opts)) @ '' OFFSET '') sql) \<and>
   (0 \<le> n \<longrightarrow> showNumber L (Num n) = showNat (nat n) \<and> digitsValue (showNat (nat n)) 0 = n) \<and>
   (n < 0 \<longrightarrow> showNumber L (Num n) = CHR ''-'' # showNat (nat (- n)) \<and>
      digitsValue (showNat (nat (- n))) 0 = - n)"
proof -
  have t: "selectStatement L cfg table allowed opts = Inr (sql, ps) \<longrightarrow>
      sublist (''LIMIT '' @ showNumber L (effectiveLimit cfg (so_limit opts)) @ '' OFFSET '') sql"
  proof
    assume "selectStatement L cfg table allowed opts = Inr (sql, ps)"
    from selectStatement_limit_text [OF this] limitClause_limit_text
    show "sublist (''LIMIT '' @ showNumber L (effectiveLimit cfg (so_limit opts)) @ '' OFFSET '') sql"
      by (blast intro: sublist_order.order.trans)
  qed
  have p: "0 \<le> n \<longrightarrow> showNumber L (Num n) = showNat (nat n) \<and> digitsValue (showNat (nat n)) 0 = n"
    by (simp add: showNumber_def showInt_def showNat_value)
  have q: "n < 0 \<longrightarrow> showNumber L (Num n) = CHR ''-'' # showNat (nat (- n)) \<and>
      digitsValue (showNat (nat (- n))) 0 = - n"
    by (simp add: showNumber_def showInt_def showNat_value)
  have e: "(safeInt n \<and> n \<noteq> 0 \<longrightarrow>
      effectiveLimit cfg (Some (Num n)) = Num (min n (maxRowsPerQuery cfg))) \<and>
   effectiveLimit cfg (Some (Big False ds)) = Num (maxRowsPerQuery cfg) \<and>
   effectiveLimit cfg (Some (Big True ds)) = Big True ds \<and>
   effectiveLimit cfg None = Num (min (defaultRowsLimit cfg) (maxRowsPerQuery cfg)) \<and>
   effectiveLimit cfg (Some (Num 0)) = Num (min (defaultRowsLimit cfg) (maxRowsPerQuery cfg)) \<and>
   effectiveLimit cfg (Some NaN) = Num (min (defaultRowsLimit cfg) (maxRowsPerQuery cfg)) \<and>
   (defaultRowsLimit cfg \<le> maxRowsPerQuery cfg \<longrightarrow>
      effectiveLimit cfg None = Num (defaultRowsLimit cfg))"
    by (simp add: effectiveLimit_def)
  from e t p q show ?thesis by blast
qed

theorem effective_limit_clamped_witness:
  "validConfig envDefaults \<and> safeInt 5000 \<and> (5000::int) \<noteq> 0 \<and>
   effectiveLimit envDefaults (Some (Num 5000)) = Num 1000 \<and>
   effectiveLimit envDefaults None = Num 100 \<and>
   effectiveLimit envDefaults (Some (Num 0)) = Num 100 \<and>
   effectiveLimit envDefaults (Some NaN) = Num 100 \<and>
   selectStatement demoLib envDefaults ''users'' [''id'', ''name''] demoOptions =
     Inr (selectSql demoLib ''*'' ''users'' [] [] (Num 1000) (Num 0), []) \<and>
   sublist ''LIMIT 1000 OFFSET '' (selectSql demoLib ''*'' ''users'' [] [] (Num 1000) (Num 0)) \<and>
   showNumber demoLib (Num 1000) = ''1000'' \<and> digitsValue ''1000'' 0 = 1000"
proof -
  have v: "validConfig envDefaults" by (simp add: validConfig_def envDefaults_def)
  have f: "safeInt 5000" by (simp add: safeInt_def MAX_SAFE_INTEGER_def)
  have s: "selectStatement demoLib envDefaults ''users'' [''id'', ''name''] demoOptions =
     Inr (selectSql demoLib ''*'' ''users'' [] [] (Num 1000) (Num 0), [])"
    by (simp add: selectStatement_def demoLib_def demoOptions_def checkOrderColumn_def
        checkFilterColumns_def effectiveLimit_def effectiveOffset_def envDefaults_def)
  have o: "so_limit demoOptions = Some (Num 5000)" by (simp add: demoOptions_def)
  have c: "defaultRowsLimit envDefaults = 100" "maxRowsPerQuery envDefaults = 1000"
    by (simp_all add: envDefaults_def)
  have k: "showNat (nat 1000) = ''1000''" by code_simp
  note T = effective_limit_clamped [OF v, where n = 5000 and L = demoLib and ds = "[]"
      and table = "''users''" and allowed = "[''id'', ''name'']" and opts = demoOptions
      and sql = "selectSql demoLib ''*'' ''users'' [] [] (Num 1000) (Num 0)" and ps = "[]"]
  note U = effective_limit_clamped [OF v, where n = 1000 and L = demoLib and ds = "[]"
      and table = "''users''" and allowed = "[''id'', ''name'']" and opts = demoOptions
      and sql = "selectSql demoLib ''*'' ''users'' [] [] (Num 1000) (Num 0)" and ps = "[]"]
  from T f have e: "effectiveLimit envDefaults (Some (Num 5000)) = Num 1000"
    by (simp add: c)
  from T have n: "effectiveLimit envDefaults None = Num 100" by (simp add: c)
  from T have z: "effectiveLimit envDefaults (Some (Num 0)) = Num 100" by (simp add: c)
  from T have a: "effectiveLimit envDefaults (Some NaN) = Num 100" by (simp add: c)
  from U have x: "showNumber demoLib (Num 1000) = showNat (nat 1000) \<and>
      digitsValue (showNat (nat 1000)) 0 = 1000" by simp
  then have x': "showNumber demoLib (Num 1000) = ''1000'' \<and> digitsValue ''1000'' 0 = 1000"
    by (simp only: k)
  from T s have "sublist (''LIMIT '' @ showNumber demoLib
      (effectiveLimit envDefaults (so_limit demoOptions)) @ '' OFFSET '')
      (selectSql demoLib ''*'' ''users'' [] [] (Num 1000) (Num 0))"
    by blast
  then have "sublist (''LIMIT '' @ ''1000'' @ '' OFFSET '')
      (selectSql demoLib ''*'' ''users'' [] [] (Num 1000) (Num 0))"
    by (simp only: o e x')
  then have b: "sublist ''LIMIT 1000 OFFSET ''
      (selectSql demoLib ''*'' ''users'' [] [] (Num 1000) (Num 0))"
    by simp
  from v f e n z a s b x' show ?thesis by simp
qed

text \<open>
  C5, as it is stated, fails at \<^verbatim>\<open>limit=0\<close> with the default configuration: the effective
  limit is the default 100, and \<open>min 0 1000\<close> is 0.
\<close>

theorem limit_zero_counterexample:
  "limitOfQuery [(''limit'', ''0'')] = Some (Num 0) \<and>
   effectiveLimit envDefaults (limitOfQuery [(''limit'', ''0'')]) = Num 100 \<and>
   effectiveLimit envDefaults (limitOfQuery [(''limit'', ''0'')]) \<noteq>
     Num (min 0 (maxRowsPerQuery envDefaults))"
  by code_simp


subsection \<open>Reading limit and offset from the query string\<close>

text \<open>
  C4, as the code has it. Reading the query string fails only where \<^verbatim>\<open>parseSelect\<close>,
  \<^verbatim>\<open>parseOrder\<close> or \<^verbatim>\<open>parseFilters\<close> fails; \<^verbatim>\<open>limit\<close> and \<^verbatim>\<open>offset\<close> are read with
  \<^verbatim>\<open>parseInt\<close> and never fail it. \<^verbatim>\<open>parseInt\<close> gives \<^verbatim>\<open>NaN\<close> for a text that begins with
  neither white space, a sign nor a digit, and for a run of digits, with or without a
  minus before it and whatever follows it, the integer of the digits when that is below
  \<open>2^53\<close> and a double of magnitude \<open>2^53\<close> or more otherwise. Under a configuration that
  \<^verbatim>\<open>env.ts\<close> accepts: a limit read as \<^verbatim>\<open>NaN\<close> selects with the limit of a request without
  one and an offset read as \<^verbatim>\<open>NaN\<close> selects from 0; a negative integer above \<open>-2^53\<close> is
  the limit or the offset unchanged, printed with its minus and digits; a double of
  \<open>2^53\<close> or more is an offset unchanged and as a limit the maximum, one of \<open>-2^53\<close> or
  less is offset or limit unchanged, each printed as the runtime prints it.
\<close>

theorem limit_offset_lenient:
  assumes "validConfig cfg"
  shows
  "(selectOptionsOfQuery L query = Inl e \<longrightarrow>
      parseSelect L (map_of query ''select'') = Inl e \<or>
      parseOrder L (map_of query ''order'') = Inl e \<or> parseFilters L query = Inl e) \<and>
   (selectOptionsOfQuery L query = Inr opts \<longrightarrow>
      so_limit opts = limitOfQuery query \<and> so_offset opts = offsetOfQuery query \<and>
      (selectStatement L cfg table allowed opts = Inr (sql, ps) \<longrightarrow>
         sublist (limitClause L (effectiveLimit cfg (limitOfQuery query))
                    (effectiveOffset (offsetOfQuery query))) sql)) \<and>
   (s = [] \<or> (\<not> isSpace (hd s) \<and> hd s \<noteq> CHR ''-'' \<and> hd s \<noteq> CHR ''+'' \<and> \<not> isDigit (hd s))
      \<longrightarrow> parseInt10 s = NaN) \<and>
   (ds \<noteq> [] \<and> list_all isDigit ds \<and> (rest = [] \<or> \<not> isDigit (hd rest)) \<longrightarrow>
      parseInt10 (ds @ rest) =
        (if digitsValue ds 0 \<le> MAX_SAFE_INTEGER then Num (digitsValue ds 0) else Big False ds) \<and>
      parseInt10 (CHR ''-'' # ds @ rest) =
        (if digitsValue ds 0 \<le> MAX_SAFE_INTEGER then Num (- digitsValue ds 0) else Big True ds)) \<and>
   (map_of query ''limit'' = Some s \<and> parseInt10 s = NaN \<longrightarrow>
      effectiveLimit cfg (limitOfQuery query) = effectiveLimit cfg None) \<and>
   (map_of query ''offset'' = Some s \<and> parseInt10 s = NaN \<longrightarrow>
      effectiveOffset (offsetOfQuery query) = Num 0) \<and>
   (map_of query ''limit'' = Some s \<and> parseInt10 s = Num n \<and> n < 0 \<longrightarrow>
      safeInt n \<and> effectiveLimit cfg (limitOfQuery query) = Num n \<and>
      showNumber L (Num n) = CHR ''-'' # showNat (nat (- n))) \<and>
   (map_of query ''offset'' = Some s \<and> parseInt10 s = Num n \<longrightarrow>
      safeInt n \<and> effectiveOffset (offsetOfQuery query) = Num n) \<and>
   (map_of query ''limit'' = Some s \<and> parseInt10 s = Big neg ds \<longrightarrow>
      effectiveLimit cfg (limitOfQuery query) =
        (if neg then Big True ds else Num (maxRowsPerQuery cfg))) \<and>
   (map_of query ''offset'' = Some s \<and> parseInt10 s = Big neg ds \<longrightarrow>
      effectiveOffset (offsetOfQuery query) = Big neg ds \<and>
      showNumber L (Big neg ds) = bigNumberText L neg ds)"
proof (intro conjI impI)
  assume "selectOptionsOfQuery L query = Inl e"
  then show "parseSelect L (map_of query ''select'') = Inl e \<or>
      parseOrder L (map_of query ''order'') = Inl e \<or> parseFilters L query = Inl e"
    by (auto simp add: selectOptionsOfQuery_def split: sum.splits)
next
  assume a: "selectOptionsOfQuery L query = Inr opts"
  then show l: "so_limit opts = limitOfQuery query" and o: "so_offset opts = offsetOfQuery query"
    by (auto simp add: selectOptionsOfQuery_def split: sum.splits)
  assume "selectStatement L cfg table allowed opts = Inr (sql, ps)"
  from selectStatement_limit_text [OF this]
  show "sublist (limitClause L (effectiveLimit cfg (limitOfQuery query))
                    (effectiveOffset (offsetOfQuery query))) sql"
    by (simp only: l o)
next
  assume "s = [] \<or> (\<not> isSpace (hd s) \<and> hd s \<noteq> CHR ''-'' \<and> hd s \<noteq> CHR ''+'' \<and> \<not> isDigit (hd s))"
  then show "parseInt10 s = NaN" by (rule parseInt10_no_number)
next
  assume h: "ds \<noteq> [] \<and> list_all isDigit ds \<and> (rest = [] \<or> \<not> isDigit (hd rest))"
  then show "parseInt10 (ds @ rest) =
        (if digitsValue ds 0 \<le> MAX_SAFE_INTEGER then Num (digitsValue ds 0) else Big False ds)"
    by (simp add: parseInt10_digits(1))
  from h show "parseInt10 (CHR ''-'' # ds @ rest) =
        (if digitsValue ds 0 \<le> MAX_SAFE_INTEGER then Num (- digitsValue ds 0) else Big True ds)"
    by (simp add: parseInt10_digits(2))
next
  assume "map_of query ''limit'' = Some s \<and> parseInt10 s = NaN"
  then have "limitOfQuery query = None \<or> limitOfQuery query = Some NaN"
    unfolding limitOfQuery_def using truthyParam_NaN by blast
  then show "effectiveLimit cfg (limitOfQuery query) = effectiveLimit cfg None"
    by (auto simp add: effectiveLimit_def)
next
  assume "map_of query ''offset'' = Some s \<and> parseInt10 s = NaN"
  then have "offsetOfQuery query = None \<or> offsetOfQuery query = Some NaN"
    unfolding offsetOfQuery_def using truthyParam_NaN by blast
  then show "effectiveOffset (offsetOfQuery query) = Num 0"
    by (auto simp add: effectiveOffset_def)
next
  assume h: "map_of query ''limit'' = Some s \<and> parseInt10 s = Num n \<and> n < 0"
  then show "safeInt n" using parseInt10_safe by blast
  from h have "limitOfQuery query = Some (Num n)"
    unfolding limitOfQuery_def using truthyParam_parsed [of query "''limit''" s] by simp
  with h assms show "effectiveLimit cfg (limitOfQuery query) = Num n"
    by (simp add: effectiveLimit_def validConfig_def)
  from h show "showNumber L (Num n) = CHR ''-'' # showNat (nat (- n))"
    by (simp add: showNumber_def showInt_def)
next
  assume h: "map_of query ''offset'' = Some s \<and> parseInt10 s = Num n"
  then show "safeInt n" using parseInt10_safe by blast
  from h have "offsetOfQuery query = Some (Num n)"
    unfolding offsetOfQuery_def using truthyParam_parsed [of query "''offset''" s] by simp
  then show "effectiveOffset (offsetOfQuery query) = Num n"
    by (simp add: effectiveOffset_def)
next
  assume h: "map_of query ''limit'' = Some s \<and> parseInt10 s = Big neg ds"
  then have "limitOfQuery query = Some (Big neg ds)"
    unfolding limitOfQuery_def using truthyParam_parsed [of query "''limit''" s] by simp
  then show "effectiveLimit cfg (limitOfQuery query) =
        (if neg then Big True ds else Num (maxRowsPerQuery cfg))"
    by (simp add: effectiveLimit_def)
next
  assume h: "map_of query ''offset'' = Some s \<and> parseInt10 s = Big neg ds"
  then have "offsetOfQuery query = Some (Big neg ds)"
    unfolding offsetOfQuery_def using truthyParam_parsed [of query "''offset''" s] by simp
  then show "effectiveOffset (offsetOfQuery query) = Big neg ds"
    by (simp add: effectiveOffset_def)
  show "showNumber L (Big neg ds) = bigNumberText L neg ds"
    by (simp add: showNumber_def)
qed

theorem limit_offset_lenient_witness:
  "validConfig envDefaults \<and>
   map_of demoQuery ''limit'' = Some ''abc'' \<and> parseInt10 ''abc'' = NaN \<and>
   effectiveLimit envDefaults (limitOfQuery demoQuery) = Num 100 \<and>
   map_of demoQuery ''offset'' = Some ''-3x'' \<and> parseInt10 ''-3x'' = Num (- 3) \<and>
   effectiveOffset (offsetOfQuery demoQuery) = Num (- 3) \<and>
   parseInt10 ''x'' = NaN \<and>
   effectiveOffset (offsetOfQuery [(''offset'', ''x'')]) = Num 0 \<and>
   parseInt10 ''-5'' = Num (- 5) \<and>
   effectiveLimit envDefaults (limitOfQuery [(''limit'', ''-5'')]) = Num (- 5) \<and>
   showNumber demoLib (Num (- 5)) = ''-5'' \<and>
   parseInt10 ''9007199254740993'' = Big False ''9007199254740993'' \<and>
   effectiveOffset (offsetOfQuery [(''offset'', ''9007199254740993'')]) = Big False ''9007199254740993'' \<and>
   effectiveLimit envDefaults (limitOfQuery [(''limit'', ''9007199254740993'')]) = Num 1000 \<and>
   parseInt10 ''-100000000000000000000000'' = Big True ''100000000000000000000000'' \<and>
   effectiveLimit envDefaults (limitOfQuery [(''limit'', ''-100000000000000000000000'')]) = Big True ''100000000000000000000000'' \<and>
   selectOptionsOfQuery demoLib demoQuery = Inr \<lparr>so_select = None, so_order = None, so_limit = Some NaN,
        so_offset = Some (Num (- 3)), so_filters = Some []\<rparr> \<and>
   selectStatement demoLib envDefaults ''users'' [''id'', ''name''] \<lparr>so_select = None, so_order = None, so_limit = Some NaN,
        so_offset = Some (Num (- 3)), so_filters = Some []\<rparr> =
     Inr (selectSql demoLib ''*'' ''users'' [] [] (Num 100) (Num (- 3)), []) \<and>
   sublist ''LIMIT 100 OFFSET -3'' (selectSql demoLib ''*'' ''users'' [] [] (Num 100) (Num (- 3))) \<and>
   selectOptionsOfQuery (demoLib\<lparr>parseOrder := (\<lambda>s. Inl (BadRequestError ''order''))\<rparr>) demoQuery
     = Inl (BadRequestError ''order'')"
proof -
  have v: "validConfig envDefaults" by (simp add: validConfig_def envDefaults_def)
  have m1: "map_of demoQuery ''limit'' = Some ''abc''" by (simp add: demoQuery_def)
  have p1: "parseInt10 ''abc'' = NaN" by code_simp
  have m2: "map_of demoQuery ''offset'' = Some ''-3x''" by (simp add: demoQuery_def)
  have p2: "parseInt10 ''-3x'' = Num (- 3)" by code_simp
  have m3: "map_of [(''offset'', ''x'')] ''offset'' = Some ''x''" by simp
  have p3: "parseInt10 ''x'' = NaN" by code_simp
  have m4: "map_of [(''limit'', ''-5'')] ''limit'' = Some ''-5''" by simp
  have p4: "parseInt10 ''-5'' = Num (- 5)" by code_simp
  have n4: "(- 5 :: int) < 0" by simp
  have m5: "map_of [(''offset'', ''9007199254740993'')] ''offset'' = Some ''9007199254740993''" by simp
  have p5: "parseInt10 ''9007199254740993'' = Big False ''9007199254740993''" by code_simp
  have m6: "map_of [(''limit'', ''9007199254740993'')] ''limit'' = Some ''9007199254740993''" by simp
  have m7: "map_of [(''limit'', ''-100000000000000000000000'')] ''limit'' = Some ''-100000000000000000000000''" by simp
  have p7: "parseInt10 ''-100000000000000000000000'' = Big True ''100000000000000000000000''" by code_simp
  have c: "defaultRowsLimit envDefaults = 100" "maxRowsPerQuery envDefaults = 1000"
    by (simp_all add: envDefaults_def)
  have lq: "limitOfQuery demoQuery = Some NaN" "offsetOfQuery demoQuery = Some (Num (- 3))"
    by code_simp+
  have so: "selectOptionsOfQuery demoLib demoQuery = Inr \<lparr>so_select = None, so_order = None, so_limit = Some NaN,
        so_offset = Some (Num (- 3)), so_filters = Some []\<rparr>"
    by (simp add: selectOptionsOfQuery_def demoLib_def lq)
  have st: "selectStatement demoLib envDefaults ''users'' [''id'', ''name''] \<lparr>so_select = None, so_order = None, so_limit = Some NaN,
        so_offset = Some (Num (- 3)), so_filters = Some []\<rparr> =
     Inr (selectSql demoLib ''*'' ''users'' [] [] (Num 100) (Num (- 3)), [])"
    by (simp add: selectStatement_def demoLib_def checkOrderColumn_def checkFilterColumns_def
        effectiveLimit_def effectiveOffset_def envDefaults_def)
  have se: "selectOptionsOfQuery
      (demoLib\<lparr>parseOrder := (\<lambda>s. Inl (BadRequestError ''order''))\<rparr>) demoQuery
     = Inl (BadRequestError ''order'')"
    by (simp add: selectOptionsOfQuery_def demoLib_def)
  have lc: "limitClause demoLib (Num 100) (Num (- 3)) = ''LIMIT 100 OFFSET -3''" by code_simp
  have sn: "CHR ''-'' # showNat (nat (- (- 5))) = ''-5''" by code_simp
  note A = limit_offset_lenient [OF v, where L = "demoLib" and query = "demoQuery"
      and s = "''abc''" and n = "0" and neg = False and ds = "[]" and rest = "[]"
      and e = "BadRequestError ''order''"
      and table = "''users''" and allowed = "[''id'', ''name'']"
      and opts = "\<lparr>so_select = None, so_order = None, so_limit = Some NaN,
        so_offset = Some (Num (- 3)), so_filters = Some []\<rparr>"
      and sql = "selectSql demoLib ''*'' ''users'' [] [] (Num 100) (Num (- 3))" and ps = "[]"]
  note B = limit_offset_lenient [OF v, where L = "demoLib" and query = "demoQuery"
      and s = "''-3x''" and n = "- 3" and neg = False and ds = "[]" and rest = "[]"
      and e = "BadRequestError ''order''"
      and table = "''users''" and allowed = "[''id'', ''name'']"
      and opts = "\<lparr>so_select = None, so_order = None, so_limit = Some NaN,
        so_offset = Some (Num (- 3)), so_filters = Some []\<rparr>"
      and sql = "selectSql demoLib ''*'' ''users'' [] [] (Num 100) (Num (- 3))" and ps = "[]"]
  note C = limit_offset_lenient [OF v, where L = "demoLib" and query = "[(''offset'', ''x'')]"
      and s = "''x''" and n = "0" and neg = False and ds = "[]" and rest = "[]"
      and e = "BadRequestError ''order''"
      and table = "''users''" and allowed = "[''id'', ''name'']"
      and opts = "\<lparr>so_select = None, so_order = None, so_limit = Some NaN,
        so_offset = Some (Num (- 3)), so_filters = Some []\<rparr>"
      and sql = "selectSql demoLib ''*'' ''users'' [] [] (Num 100) (Num (- 3))" and ps = "[]"]
  note D = limit_offset_lenient [OF v, where L = "demoLib" and query = "[(''limit'', ''-5'')]"
      and s = "''-5''" and n = "- 5" and neg = False and ds = "[]" and rest = "[]"
      and e = "BadRequestError ''order''"
      and table = "''users''" and allowed = "[''id'', ''name'']"
      and opts = "\<lparr>so_select = None, so_order = None, so_limit = Some NaN,
        so_offset = Some (Num (- 3)), so_filters = Some []\<rparr>"
      and sql = "selectSql demoLib ''*'' ''users'' [] [] (Num 100) (Num (- 3))" and ps = "[]"]
  note F = limit_offset_lenient [OF v, where L = "demoLib" and query = "[(''offset'', ''9007199254740993'')]"
      and s = "''9007199254740993''" and n = "0" and neg = False and ds = "''9007199254740993''" and rest = "[]"
      and e = "BadRequestError ''order''"
      and table = "''users''" and allowed = "[''id'', ''name'']"
      and opts = "\<lparr>so_select = None, so_order = None, so_limit = Some NaN,
        so_offset = Some (Num (- 3)), so_filters = Some []\<rparr>"
      and sql = "selectSql demoLib ''*'' ''users'' [] [] (Num 100) (Num (- 3))" and ps = "[]"]
  note G = limit_offset_lenient [OF v, where L = "demoLib" and query = "[(''limit'', ''9007199254740993'')]"
      and s = "''9007199254740993''" and n = "0" and neg = False and ds = "''9007199254740993''" and rest = "[]"
      and e = "BadRequestError ''order''"
      and table = "''users''" and allowed = "[''id'', ''name'']"
      and opts = "\<lparr>so_select = None, so_order = None, so_limit = Some NaN,
        so_offset = Some (Num (- 3)), so_filters = Some []\<rparr>"
      and sql = "selectSql demoLib ''*'' ''users'' [] [] (Num 100) (Num (- 3))" and ps = "[]"]
  note H = limit_offset_lenient [OF v, where L = "demoLib" and query = "[(''limit'', ''-100000000000000000000000'')]"
      and s = "''-100000000000000000000000''" and n = "0" and neg = True and ds = "''100000000000000000000000''" and rest = "[]"
      and e = "BadRequestError ''order''"
      and table = "''users''" and allowed = "[''id'', ''name'']"
      and opts = "\<lparr>so_select = None, so_order = None, so_limit = Some NaN,
        so_offset = Some (Num (- 3)), so_filters = Some []\<rparr>"
      and sql = "selectSql demoLib ''*'' ''users'' [] [] (Num 100) (Num (- 3))" and ps = "[]"]
  from A [THEN conjunct2, THEN conjunct2, THEN conjunct2, THEN conjunct2, THEN conjunct1, THEN mp, OF conjI, OF m1 p1]
  have r1: "effectiveLimit envDefaults (limitOfQuery demoQuery) = Num 100"
    by (simp add: effectiveLimit_def c)
  from B [THEN conjunct2, THEN conjunct2, THEN conjunct2, THEN conjunct2, THEN conjunct2, THEN conjunct2, THEN conjunct2, THEN conjunct1, THEN mp, OF conjI, OF m2 p2]
  have r2: "effectiveOffset (offsetOfQuery demoQuery) = Num (- 3)" by (rule conjunct2)
  from C [THEN conjunct2, THEN conjunct2, THEN conjunct2, THEN conjunct2, THEN conjunct2, THEN conjunct1, THEN mp, OF conjI, OF m3 p3]
  have r3: "effectiveOffset (offsetOfQuery [(''offset'', ''x'')]) = Num 0" .
  from D [THEN conjunct2, THEN conjunct2, THEN conjunct2, THEN conjunct2, THEN conjunct2, THEN conjunct2, THEN conjunct1, THEN mp, OF conjI, OF m4 conjI, OF p4 n4]
  have d: "effectiveLimit envDefaults (limitOfQuery [(''limit'', ''-5'')]) = Num (- 5) \<and>
      showNumber demoLib (Num (- 5)) = CHR ''-'' # showNat (nat (- (- 5)))"
    by (rule conjunct2)
  from d have r4: "effectiveLimit envDefaults (limitOfQuery [(''limit'', ''-5'')]) = Num (- 5)"
    by (rule conjunct1)
  from d have r4s: "showNumber demoLib (Num (- 5)) = ''-5''"
    by (simp only: sn)
  from F [THEN conjunct2, THEN conjunct2, THEN conjunct2, THEN conjunct2, THEN conjunct2, THEN conjunct2, THEN conjunct2, THEN conjunct2, THEN conjunct2, THEN mp, OF conjI, OF m5 p5]
  have r7: "effectiveOffset (offsetOfQuery [(''offset'', ''9007199254740993'')]) = Big False ''9007199254740993''"
    by (rule conjunct1)
  from G [THEN conjunct2, THEN conjunct2, THEN conjunct2, THEN conjunct2, THEN conjunct2, THEN conjunct2, THEN conjunct2, THEN conjunct2, THEN conjunct1, THEN mp, OF conjI, OF m6 p5]
  have r8: "effectiveLimit envDefaults (limitOfQuery [(''limit'', ''9007199254740993'')]) = Num 1000"
    by (simp add: c)
  from H [THEN conjunct2, THEN conjunct2, THEN conjunct2, THEN conjunct2, THEN conjunct2, THEN conjunct2, THEN conjunct2, THEN conjunct2, THEN conjunct1, THEN mp, OF conjI, OF m7 p7]
  have r9: "effectiveLimit envDefaults (limitOfQuery [(''limit'', ''-100000000000000000000000'')]) = Big True ''100000000000000000000000''"
    by simp
  from A [THEN conjunct2, THEN conjunct1, THEN mp, OF so, THEN conjunct2, THEN conjunct2, THEN mp, OF st]
  have r5: "sublist ''LIMIT 100 OFFSET -3''
      (selectSql demoLib ''*'' ''users'' [] [] (Num 100) (Num (- 3)))"
    by (simp only: r1 r2 lc)
  show ?thesis
    by (intro conjI) (fact v m1 p1 r1 m2 p2 r2 p3 r3 p4 r4 r4s p5 r7 r8 p7 r9 so st r5 se)+
qed

text \<open>
  C4, as it is stated, fails: the request with \<^verbatim>\<open>limit=abc\<close> succeeds, and its statement
  carries the default limit.
\<close>

theorem malformed_limit_counterexample:
  "isOk (fst (getRoute demoDatabase demoLib envDefaults 0 ''p'' ''users''
      [(''limit'', ''abc'')] emptyWorld)) \<and>
   s_sql (last (issued (snd (getRoute demoDatabase demoLib envDefaults 0 ''p'' ''users''
      [(''limit'', ''abc'')] emptyWorld)))) =
     selectSql demoLib ''*'' ''users'' [] [] (Num 100) (Num 0) \<and>
   limitClause demoLib (Num 100) (Num 0) = ''LIMIT 100 OFFSET 0''"
  by code_simp

section \<open>The statement of \<open>createTable\<close>\<close>

lemma joinClauses_noClauses: "joinClauses a noClauses = a"
  by (simp add: joinClauses_def noClauses_def)

lemma joinClauses_assoc: "joinClauses (joinClauses a b) c = joinClauses a (joinClauses b c)"
  by (simp add: joinClauses_def)


lemma defaultClause_allowed:
  "\<forall>d. dv = Some d \<longrightarrow> defaultAllowed d \<Longrightarrow> defaultClause dv = Inr (defaultText dv)"
  by (cases dv) (auto simp add: defaultClause_def defaultText_def)


lemma createTableColumn_checked:
  assumes "columnChecked col" and "\<forall>d. cd_defaultValue col = Some d \<longrightarrow> defaultAllowed d"
  shows "createTableColumn col acc = Inr (joinClauses acc (clausesOfColumn col))"
proof -
  from assms(2) have t: "defaultClause (cd_defaultValue col) = Inr (defaultText (cd_defaultValue col))"
    by (rule defaultClause_allowed)
  show ?thesis
  proof (cases "cd_references col")
    case None
    with assms(1) t show ?thesis
      by (simp add: createTableColumn_def Let_def joinClauses_def clausesOfColumn_def
          columnChecked_def)
  next
    case (Some ref)
    obtain rt rc where "ref = (rt, rc)" by (cases ref)
    with Some assms(1) t show ?thesis
      by (simp add: createTableColumn_def Let_def joinClauses_def clausesOfColumn_def
          columnChecked_def)
  qed
qed


lemma createTableColumns_checked:
  "\<forall>c \<in> set cols. columnChecked c \<and> (\<forall>d. cd_defaultValue c = Some d \<longrightarrow> defaultAllowed d) \<Longrightarrow>
     createTableColumns cols acc = Inr (joinClauses acc (clausesOf cols))"
proof (induction cols arbitrary: acc)
  case Nil
  then show ?case by (simp add: joinClauses_noClauses)
next
  case (Cons col cols)
  then have "createTableColumn col acc = Inr (joinClauses acc (clausesOfColumn col))"
    by (simp add: createTableColumn_checked)
  with Cons show ?case by (simp add: joinClauses_assoc)
qed

lemma joinClauses_noClauses_left: "joinClauses noClauses a = a"
  by (simp add: joinClauses_def noClauses_def)


lemma createTableStatement_checked:
  assumes "validateIdentifier tableName Table = Inr ()" and "cols \<noteq> []" and "length cols \<le> 100"
    and "\<forall>c \<in> set cols. columnChecked c \<and> (\<forall>d. cd_defaultValue c = Some d \<longrightarrow> defaultAllowed d)"
  shows "createTableStatement tableName cols ifNotExists =
     Inr (createTableSql tableName (clausesOf cols) ifNotExists)"
proof -
  from createTableColumns_checked [OF assms(4), of noClauses]
  have "createTableColumns cols
          \<lparr>columnDefs = [], primaryKeys = [], uniqueConstraints = [], foreignKeys = []\<rparr> =
        Inr (clausesOf cols)"
    by (simp add: joinClauses_noClauses_left) (simp add: noClauses_def)
  with assms(1,2,3) show ?thesis by (simp add: createTableStatement_def)
qed

lemma columnDefs_clausesOf:
  "columnDefs (clausesOf cols) =
     map (\<lambda>c. columnDefText c (defaultText (cd_defaultValue c))) cols"
  by (induction cols) (simp_all add: noClauses_def joinClauses_def clausesOfColumn_def)

lemma columnDef_in_createTableSql:
  assumes "col \<in> set cols"
  shows "sublist (columnDefText col (defaultText (cd_defaultValue col)))
           (createTableSql tableName (clausesOf cols) ifNotExists)"
proof -
  let ?d = "columnDefText col (defaultText (cd_defaultValue col))"
  let ?rest = "(if primaryKeys (clausesOf cols) \<noteq> []
         then [''PRIMARY KEY ('' @ join '', '' (primaryKeys (clausesOf cols)) @ '')''] else []) @
        uniqueConstraints (clausesOf cols) @ foreignKeys (clausesOf cols)"
  from assms have "?d \<in> set (columnDefs (clausesOf cols) @ ?rest)"
    by (simp add: columnDefs_clausesOf)
  then have "sublist ?d (join ('','' @ newline @ ''  '') (columnDefs (clausesOf cols) @ ?rest))"
    by (rule sublist_join)
  then obtain p q where
    "join ('','' @ newline @ ''  '') (columnDefs (clausesOf cols) @ ?rest) = p @ ?d @ q"
    by (auto simp add: sublist_def)
  then have "\<exists>a b. createTableSql tableName (clausesOf cols) ifNotExists = a @ ?d @ b"
    unfolding createTableSql_def by (metis append.assoc)
  then show ?thesis unfolding sublist_def by blast
qed

lemma runDdl_sent:
  "answer D (issued w) \<lparr>s_role = Owner, s_project = pid, s_sql = sql, s_params = []\<rparr> = Inr res \<Longrightarrow>
     runDdl D pid (Inr sql) r w =
       (Inr r, clearCache (Some pid)
          (w\<lparr>issued := issued w @
             [\<lparr>s_role = Owner, s_project = pid, s_sql = sql, s_params = []\<rparr>]\<rparr>))"
  by (simp add: runDdl_def queryAsOwner_def queryAs_def Let_def)

lemma issued_clearCache: "issued (clearCache p w) = issued w"
  by (cases p) (simp_all add: clearCache_def)

lemma issued_runDdl:
  "issued (snd (runDdl D pid (Inr sql) r w)) =
     issued w @ [\<lparr>s_role = Owner, s_project = pid, s_sql = sql, s_params = []\<rparr>]"
  by (simp add: runDdl_def queryAsOwner_def queryAs_def Let_def issued_clearCache
      split: sum.splits)

section \<open>Default values of columns\<close>

lemma digit_not_minus: "isDigit c \<Longrightarrow> c \<noteq> CHR ''-''"
  by (auto simp add: isDigit_def code_def)

lemma digit_not_point: "isDigit c \<Longrightarrow> c \<noteq> CHR ''.''"
  by (auto simp add: isDigit_def code_def)

lemma point_not_digit: "\<not> isDigit CHR ''.''"
  by (simp add: isDigit_def code_def)

lemma takeWhile_digits:
  "list_all isDigit ds \<Longrightarrow> fs = [] \<or> \<not> isDigit (hd fs) \<Longrightarrow>
     takeWhile isDigit (ds @ fs) = ds \<and> dropWhile isDigit (ds @ fs) = fs"
  by (cases fs) (auto simp add: list_all_iff takeWhile_append2 dropWhile_append2)

lemma unsignedNumeric_iff:
  "unsignedNumeric t \<longleftrightarrow>
     (\<exists>ds fs. t = ds @ fs \<and> ds \<noteq> [] \<and> list_all isDigit ds \<and>
        (fs = [] \<or> (\<exists>frac. fs = CHR ''.'' # frac \<and> frac \<noteq> [] \<and> list_all isDigit frac)))"
proof
  assume u: "unsignedNumeric t"
  let ?ds = "takeWhile isDigit t" and ?fs = "dropWhile isDigit t"
  have "t = ?ds @ ?fs" by simp
  moreover from u have "?ds \<noteq> []" by (simp add: unsignedNumeric_def)
  moreover have "list_all isDigit ?ds" by (auto simp add: list_all_iff dest: set_takeWhileD)
  moreover from u have "?fs = [] \<or> (\<exists>frac. ?fs = CHR ''.'' # frac \<and> frac \<noteq> [] \<and> list_all isDigit frac)"
    by (auto simp add: unsignedNumeric_def split: list.splits)
  ultimately show "\<exists>ds fs. t = ds @ fs \<and> ds \<noteq> [] \<and> list_all isDigit ds \<and>
        (fs = [] \<or> (\<exists>frac. fs = CHR ''.'' # frac \<and> frac \<noteq> [] \<and> list_all isDigit frac))"
    by blast
next
  assume "\<exists>ds fs. t = ds @ fs \<and> ds \<noteq> [] \<and> list_all isDigit ds \<and>
        (fs = [] \<or> (\<exists>frac. fs = CHR ''.'' # frac \<and> frac \<noteq> [] \<and> list_all isDigit frac))"
  then obtain ds fs where t: "t = ds @ fs" and d: "ds \<noteq> []" "list_all isDigit ds"
    and f: "fs = [] \<or> (\<exists>frac. fs = CHR ''.'' # frac \<and> frac \<noteq> [] \<and> list_all isDigit frac)"
    by blast
  from f have "fs = [] \<or> \<not> isDigit (hd fs)" using point_not_digit by auto
  from takeWhile_digits [OF d(2) this] t
  have tw: "takeWhile isDigit t = ds" and dw: "dropWhile isDigit t = fs" by simp_all
  from d f show "unsignedNumeric t"
    unfolding unsignedNumeric_def tw dw by auto
qed

lemma numericRegex_iff:
  "numericRegex s \<longleftrightarrow>
     (\<exists>m ds fs. s = m @ ds @ fs \<and> (m = [] \<or> m = ''-'') \<and> ds \<noteq> [] \<and> list_all isDigit ds \<and>
        (fs = [] \<or> (\<exists>frac. fs = CHR ''.'' # frac \<and> frac \<noteq> [] \<and> list_all isDigit frac)))"
  (is "_ \<longleftrightarrow> ?R")
proof (cases s)
  case Nil
  then show ?thesis by (simp add: numericRegex_def unsignedNumeric_def)
next
  case (Cons c r)
  show ?thesis
  proof (cases "c = CHR ''-''")
    case True
    with Cons have n: "numericRegex s = unsignedNumeric r" by (simp add: numericRegex_def)
    show ?thesis
    proof
      assume "numericRegex s"
      with n obtain ds fs where "r = ds @ fs" "ds \<noteq> []" "list_all isDigit ds"
        "fs = [] \<or> (\<exists>frac. fs = CHR ''.'' # frac \<and> frac \<noteq> [] \<and> list_all isDigit frac)"
        unfolding unsignedNumeric_iff by blast
      with Cons True have "s = ''-'' @ ds @ fs" by simp
      with \<open>ds \<noteq> []\<close> \<open>list_all isDigit ds\<close>
        \<open>fs = [] \<or> (\<exists>frac. fs = CHR ''.'' # frac \<and> frac \<noteq> [] \<and> list_all isDigit frac)\<close>
      show ?R by blast
    next
      assume ?R
      then obtain m ds fs where s: "s = m @ ds @ fs" and m: "m = [] \<or> m = ''-''"
        and d: "ds \<noteq> []" "list_all isDigit ds"
        and f: "fs = [] \<or> (\<exists>frac. fs = CHR ''.'' # frac \<and> frac \<noteq> [] \<and> list_all isDigit frac)"
        by blast
      have "m \<noteq> []"
      proof
        assume "m = []"
        with s d Cons have "c = hd ds" "hd ds \<in> set ds" by (cases ds; simp)+
        with d(2) True digit_not_minus show False by (auto simp add: list_all_iff)
      qed
      with m s Cons have "r = ds @ fs" by simp
      with d f have "unsignedNumeric r" unfolding unsignedNumeric_iff by blast
      with n show "numericRegex s" by simp
    qed
  next
    case False
    with Cons have n: "numericRegex s = unsignedNumeric s" by (simp add: numericRegex_def)
    show ?thesis
    proof
      assume "numericRegex s"
      with n obtain ds fs where "s = ds @ fs" "ds \<noteq> []" "list_all isDigit ds"
        "fs = [] \<or> (\<exists>frac. fs = CHR ''.'' # frac \<and> frac \<noteq> [] \<and> list_all isDigit frac)"
        unfolding unsignedNumeric_iff by blast
      then have "s = [] @ ds @ fs \<and> ([] = [] \<or> [] = ''-'') \<and> ds \<noteq> [] \<and> list_all isDigit ds \<and>
        (fs = [] \<or> (\<exists>frac. fs = CHR ''.'' # frac \<and> frac \<noteq> [] \<and> list_all isDigit frac))"
        by simp
      then show ?R by blast
    next
      assume ?R
      then obtain m ds fs where s: "s = m @ ds @ fs" and m: "m = [] \<or> m = ''-''"
        and d: "ds \<noteq> []" "list_all isDigit ds"
        and f: "fs = [] \<or> (\<exists>frac. fs = CHR ''.'' # frac \<and> frac \<noteq> [] \<and> list_all isDigit frac)"
        by blast
      from m s Cons False have "m = []" by auto
      with s have "s = ds @ fs" by simp
      with d f have "unsignedNumeric s" unfolding unsignedNumeric_iff by blast
      with n show "numericRegex s" by simp
    qed
  qed
qed

lemma quotedRegex_iff:
  "quotedRegex s \<longleftrightarrow> (\<exists>body. s = CHR 0x27 # body @ [CHR 0x27] \<and> CHR 0x27 \<notin> set body)"
proof
  assume q: "quotedRegex s"
  then obtain r where s: "s = CHR 0x27 # r" and r: "r \<noteq> []" "last r = CHR 0x27"
    "CHR 0x27 \<notin> set (butlast r)"
    by (auto simp add: quotedRegex_def split: list.splits)
  from r(1,2) have "r = butlast r @ [CHR 0x27]" by (metis append_butlast_last_id)
  with s r(3) show "\<exists>body. s = CHR 0x27 # body @ [CHR 0x27] \<and> CHR 0x27 \<notin> set body" by metis
next
  assume "\<exists>body. s = CHR 0x27 # body @ [CHR 0x27] \<and> CHR 0x27 \<notin> set body"
  then show "quotedRegex s" by (auto simp add: quotedRegex_def)
qed

lemma defaultClause_cases:
  "(\<exists>m. defaultClause dv = Inl (BadRequestError m)) \<or>
   ((\<exists>t. defaultClause dv = Inr t) \<and> (\<forall>d. dv = Some d \<longrightarrow> defaultAllowed d))"
  by (cases dv) (simp_all add: defaultClause_def)

lemma createTableColumn_cases:
  "(\<exists>m. createTableColumn col acc = Inl (BadRequestError m)) \<or>
   ((\<exists>acc1. createTableColumn col acc = Inr acc1) \<and>
    (\<forall>d. cd_defaultValue col = Some d \<longrightarrow> defaultAllowed d))"
proof -
  from validateIdentifier_cases [of "cd_name col" Column] show ?thesis
  proof
    assume "\<exists>m. validateIdentifier (cd_name col) Column = Inl (BadRequestError m)"
    then show ?thesis by (auto simp add: createTableColumn_def)
  next
    assume n: "validateIdentifier (cd_name col) Column = Inr ()"
    show ?thesis
    proof (cases "dataTypeAllowed (cd_type col)")
      case False
      with n show ?thesis by (simp add: createTableColumn_def)
    next
      case True
      from defaultClause_cases [of "cd_defaultValue col"] show ?thesis
      proof
        assume "\<exists>m. defaultClause (cd_defaultValue col) = Inl (BadRequestError m)"
        with n True show ?thesis by (auto simp add: createTableColumn_def)
      next
        assume d: "(\<exists>t. defaultClause (cd_defaultValue col) = Inr t) \<and>
          (\<forall>d. cd_defaultValue col = Some d \<longrightarrow> defaultAllowed d)"
        then obtain t where t: "defaultClause (cd_defaultValue col) = Inr t" by blast
        show ?thesis
        proof (cases "cd_references col")
          case None
          with n True t d show ?thesis by (simp add: createTableColumn_def Let_def)
        next
          case (Some ref)
          obtain rt rc where ref: "ref = (rt, rc)" by (cases ref)
          from validateIdentifier_cases [of rt Table] validateIdentifier_cases [of rc Column]
          have "(\<exists>m. createTableColumn col acc = Inl (BadRequestError m)) \<or>
              (\<exists>acc1. createTableColumn col acc = Inr acc1)"
            using n True t Some ref by (auto simp add: createTableColumn_def Let_def)
          with d show ?thesis by blast
        qed
      qed
    qed
  qed
qed

lemma createTableColumns_cases:
  "(\<exists>m. createTableColumns cols acc = Inl (BadRequestError m)) \<or>
   ((\<exists>acc1. createTableColumns cols acc = Inr acc1) \<and>
    (\<forall>col \<in> set cols. \<forall>d. cd_defaultValue col = Some d \<longrightarrow> defaultAllowed d))"
proof (induction cols arbitrary: acc)
  case Nil
  then show ?case by simp
next
  case (Cons col cols)
  from createTableColumn_cases [of col acc] show ?case
  proof
    assume "\<exists>m. createTableColumn col acc = Inl (BadRequestError m)"
    then show ?thesis by auto
  next
    assume a: "(\<exists>acc1. createTableColumn col acc = Inr acc1) \<and>
      (\<forall>d. cd_defaultValue col = Some d \<longrightarrow> defaultAllowed d)"
    then obtain acc1 where acc1: "createTableColumn col acc = Inr acc1" by blast
    from Cons.IH [of acc1] a acc1 show ?thesis by auto
  qed
qed

lemma createTableStatement_cases:
  "(\<exists>m. createTableStatement tableName cols ifNotExists = Inl (BadRequestError m)) \<or>
   ((\<exists>sql. createTableStatement tableName cols ifNotExists = Inr sql) \<and>
    (\<forall>col \<in> set cols. \<forall>d. cd_defaultValue col = Some d \<longrightarrow> defaultAllowed d))"
  using validateIdentifier_cases [of tableName Table]
    createTableColumns_cases [of cols
      "\<lparr>columnDefs = [], primaryKeys = [], uniqueConstraints = [], foreignKeys = []\<rparr>"]
  by (auto simp add: createTableStatement_def)

lemma addColumnStatement_cases:
  "(\<exists>m. addColumnStatement tableName col = Inl (BadRequestError m)) \<or>
   ((\<exists>sql. addColumnStatement tableName col = Inr sql) \<and>
    (\<forall>d. cd_defaultValue col = Some d \<longrightarrow> defaultAllowed d))"
  using validateIdentifier_cases [of tableName Table]
    validateIdentifier_cases [of "cd_name col" Column]
    defaultClause_cases [of "cd_defaultValue col"]
  by (auto simp add: addColumnStatement_def)

lemma runDdl_result:
  "fst (runDdl D pid (Inr sql) r w) =
     (case answer D (issued w) \<lparr>s_role = Owner, s_project = pid, s_sql = sql, s_params = []\<rparr> of
        Inl e \<Rightarrow> Inl e
      | Inr res \<Rightarrow> Inr r)"
  by (simp add: runDdl_def queryAsOwner_def queryAs_def Let_def split: sum.splits)

lemma addColumnStatement_allowed:
  assumes "validateIdentifier tableName Table = Inr ()"
    and "validateIdentifier (cd_name col) Column = Inr ()"
    and "dataTypeAllowed (cd_type col)"
    and "cd_defaultValue col = Some d" and "defaultAllowed d"
  shows "addColumnStatement tableName col =
     Inr (''ALTER TABLE '' @ quoteIdent tableName @ '' ADD COLUMN '' @
          quoteIdent (cd_name col) @ '' '' @ cd_type col @
          (if cd_nullable col = Some False then '' NOT NULL'' else []) @ '' DEFAULT '' @ d @
          (if cd_unique col then '' UNIQUE'' else []))"
  using assms by (simp add: addColumnStatement_def defaultClause_def columnDefText_def)

text \<open>
  C7, as the code has it. A default value passes the test exactly when it is one of
  \<open>now()\<close>, \<open>CURRENT_TIMESTAMP\<close>, \<open>gen_random_uuid()\<close>, \<open>true\<close>, \<open>false\<close>, or an optional
  minus, one or more digits and optionally a point and one or more digits, or a quote,
  any characters other than the quote, and a quote. \<^verbatim>\<open>addColumn\<close> with a default that
  does not pass, and \<^verbatim>\<open>createTable\<close> with a column that has one, fail with a BadRequest
  error and send nothing to the database. A default that passes is accepted: when the
  names and the type of the column pass their checks, \<^verbatim>\<open>addColumn\<close> sends, as owner,
  the statement \<^verbatim>\<open>ALTER TABLE "table" ADD COLUMN "name" type [NOT NULL] DEFAULT d [UNIQUE]\<close>
  with the default as it was given, and fails only if the database does; when the name of
  the table, the number of columns and every column pass their checks,
  \<^verbatim>\<open>createTable\<close> sends, as owner, the CREATE TABLE statement of the columns, in which
  the column stands as \<^verbatim>\<open>"name" type [NOT NULL] DEFAULT d\<close>, and fails only if the
  database does.
\<close>

theorem default_closed_set:
  "(defaultAllowed d \<longleftrightarrow>
      d = ''now()'' \<or> d = ''CURRENT_TIMESTAMP'' \<or> d = ''gen_random_uuid()'' \<or>
      d = ''true'' \<or> d = ''false'' \<or>
      (\<exists>m ds fs. d = m @ ds @ fs \<and> (m = [] \<or> m = ''-'') \<and> ds \<noteq> [] \<and> list_all isDigit ds \<and>
         (fs = [] \<or> (\<exists>frac. fs = CHR ''.'' # frac \<and> frac \<noteq> [] \<and> list_all isDigit frac))) \<or>
      (\<exists>body. d = CHR 0x27 # body @ [CHR 0x27] \<and> CHR 0x27 \<notin> set body)) \<and>
   (cd_defaultValue col = Some d \<and> \<not> defaultAllowed d \<longrightarrow>
      isBadRequest (fst (addColumn D pid tableName col w)) \<and>
      snd (addColumn D pid tableName col w) = w) \<and>
   (col \<in> set cols \<and> cd_defaultValue col = Some d \<and> \<not> defaultAllowed d \<longrightarrow>
      isBadRequest (fst (createTable D pid tableName cols ifNotExists w)) \<and>
      snd (createTable D pid tableName cols ifNotExists w) = w) \<and>
   (validateIdentifier tableName Table = Inr () \<and>
    validateIdentifier (cd_name col) Column = Inr () \<and> dataTypeAllowed (cd_type col) \<and>
    cd_defaultValue col = Some d \<and> defaultAllowed d \<longrightarrow>
      issued (snd (addColumn D pid tableName col w)) =
        issued w @
        [\<lparr>s_role = Owner, s_project = pid,
          s_sql = ''ALTER TABLE '' @ quoteIdent tableName @ '' ADD COLUMN '' @
                  quoteIdent (cd_name col) @ '' '' @ cd_type col @
                  (if cd_nullable col = Some False then '' NOT NULL'' else []) @
                  '' DEFAULT '' @ d @ (if cd_unique col then '' UNIQUE'' else []),
          s_params = []\<rparr>] \<and>
      fst (addColumn D pid tableName col w) =
        (case answer D (issued w)
                \<lparr>s_role = Owner, s_project = pid,
                 s_sql = ''ALTER TABLE '' @ quoteIdent tableName @ '' ADD COLUMN '' @
                         quoteIdent (cd_name col) @ '' '' @ cd_type col @
                         (if cd_nullable col = Some False then '' NOT NULL'' else []) @
                         '' DEFAULT '' @ d @ (if cd_unique col then '' UNIQUE'' else []),
                 s_params = []\<rparr> of
           Inl e \<Rightarrow> Inl e
         | Inr res \<Rightarrow> Inr (tableName, cd_name col))) \<and>
   (validateIdentifier tableName Table = Inr () \<and> cols \<noteq> [] \<and> length cols \<le> 100 \<and>
    (\<forall>c \<in> set cols. columnChecked c \<and> (\<forall>dv. cd_defaultValue c = Some dv \<longrightarrow> defaultAllowed dv)) \<and>
    col \<in> set cols \<and> cd_defaultValue col = Some d \<longrightarrow>
      sublist (quoteIdent (cd_name col) @ '' '' @ cd_type col @
               (if cd_nullable col = Some False then '' NOT NULL'' else []) @ '' DEFAULT '' @ d)
        (createTableSql tableName (clausesOf cols) ifNotExists) \<and>
      issued (snd (createTable D pid tableName cols ifNotExists w)) =
        issued w @
        [\<lparr>s_role = Owner, s_project = pid,
          s_sql = createTableSql tableName (clausesOf cols) ifNotExists, s_params = []\<rparr>] \<and>
      fst (createTable D pid tableName cols ifNotExists w) =
        (case answer D (issued w)
                \<lparr>s_role = Owner, s_project = pid,
                 s_sql = createTableSql tableName (clausesOf cols) ifNotExists,
                 s_params = []\<rparr> of
           Inl e \<Rightarrow> Inl e
         | Inr res \<Rightarrow> Inr tableName))"
proof (intro conjI impI)
  show "defaultAllowed d \<longleftrightarrow>
      d = ''now()'' \<or> d = ''CURRENT_TIMESTAMP'' \<or> d = ''gen_random_uuid()'' \<or>
      d = ''true'' \<or> d = ''false'' \<or>
      (\<exists>m ds fs. d = m @ ds @ fs \<and> (m = [] \<or> m = ''-'') \<and> ds \<noteq> [] \<and> list_all isDigit ds \<and>
         (fs = [] \<or> (\<exists>frac. fs = CHR ''.'' # frac \<and> frac \<noteq> [] \<and> list_all isDigit frac))) \<or>
      (\<exists>body. d = CHR 0x27 # body @ [CHR 0x27] \<and> CHR 0x27 \<notin> set body)"
    unfolding defaultAllowed_def numericRegex_iff quotedRegex_iff by (rule refl)
next
  assume h: "cd_defaultValue col = Some d \<and> \<not> defaultAllowed d"
  with addColumnStatement_cases [of tableName col]
  obtain m where "addColumnStatement tableName col = Inl (BadRequestError m)" by blast
  then show "isBadRequest (fst (addColumn D pid tableName col w))"
    and "snd (addColumn D pid tableName col w) = w"
    by (simp_all add: addColumn_def runDdl_def)
next
  assume h: "col \<in> set cols \<and> cd_defaultValue col = Some d \<and> \<not> defaultAllowed d"
  with createTableStatement_cases [of tableName cols ifNotExists]
  obtain m where "createTableStatement tableName cols ifNotExists = Inl (BadRequestError m)"
    by blast
  then show "isBadRequest (fst (createTable D pid tableName cols ifNotExists w))"
    and "snd (createTable D pid tableName cols ifNotExists w) = w"
    by (simp_all add: createTable_def runDdl_def)
next
  assume h: "validateIdentifier tableName Table = Inr () \<and>
    validateIdentifier (cd_name col) Column = Inr () \<and> dataTypeAllowed (cd_type col) \<and>
    cd_defaultValue col = Some d \<and> defaultAllowed d"
  then have s: "addColumnStatement tableName col =
     Inr (''ALTER TABLE '' @ quoteIdent tableName @ '' ADD COLUMN '' @
          quoteIdent (cd_name col) @ '' '' @ cd_type col @
          (if cd_nullable col = Some False then '' NOT NULL'' else []) @ '' DEFAULT '' @ d @
          (if cd_unique col then '' UNIQUE'' else []))"
    by (simp add: addColumnStatement_allowed)
  show "issued (snd (addColumn D pid tableName col w)) =
        issued w @
        [\<lparr>s_role = Owner, s_project = pid,
          s_sql = ''ALTER TABLE '' @ quoteIdent tableName @ '' ADD COLUMN '' @
                  quoteIdent (cd_name col) @ '' '' @ cd_type col @
                  (if cd_nullable col = Some False then '' NOT NULL'' else []) @
                  '' DEFAULT '' @ d @ (if cd_unique col then '' UNIQUE'' else []),
          s_params = []\<rparr>]"
    unfolding addColumn_def s by (rule issued_runDdl)
  show "fst (addColumn D pid tableName col w) =
        (case answer D (issued w)
                \<lparr>s_role = Owner, s_project = pid,
                 s_sql = ''ALTER TABLE '' @ quoteIdent tableName @ '' ADD COLUMN '' @
                         quoteIdent (cd_name col) @ '' '' @ cd_type col @
                         (if cd_nullable col = Some False then '' NOT NULL'' else []) @
                         '' DEFAULT '' @ d @ (if cd_unique col then '' UNIQUE'' else []),
                 s_params = []\<rparr> of
           Inl e \<Rightarrow> Inl e
         | Inr res \<Rightarrow> Inr (tableName, cd_name col))"
    unfolding addColumn_def s by (rule runDdl_result)
next
  assume h: "validateIdentifier tableName Table = Inr () \<and> cols \<noteq> [] \<and> length cols \<le> 100 \<and>
    (\<forall>c \<in> set cols. columnChecked c \<and> (\<forall>dv. cd_defaultValue c = Some dv \<longrightarrow> defaultAllowed dv)) \<and>
    col \<in> set cols \<and> cd_defaultValue col = Some d"
  then have s: "createTableStatement tableName cols ifNotExists =
      Inr (createTableSql tableName (clausesOf cols) ifNotExists)"
    by (simp add: createTableStatement_checked)
  from h have "col \<in> set cols" by simp
  from columnDef_in_createTableSql [OF this, of tableName ifNotExists] h
  show "sublist (quoteIdent (cd_name col) @ '' '' @ cd_type col @
               (if cd_nullable col = Some False then '' NOT NULL'' else []) @ '' DEFAULT '' @ d)
        (createTableSql tableName (clausesOf cols) ifNotExists)"
    by (simp add: columnDefText_def defaultText_def)
  show "issued (snd (createTable D pid tableName cols ifNotExists w)) =
        issued w @
        [\<lparr>s_role = Owner, s_project = pid,
          s_sql = createTableSql tableName (clausesOf cols) ifNotExists, s_params = []\<rparr>]"
    unfolding createTable_def s by (rule issued_runDdl)
  show "fst (createTable D pid tableName cols ifNotExists w) =
        (case answer D (issued w)
                \<lparr>s_role = Owner, s_project = pid,
                 s_sql = createTableSql tableName (clausesOf cols) ifNotExists,
                 s_params = []\<rparr> of
           Inl e \<Rightarrow> Inl e
         | Inr res \<Rightarrow> Inr tableName)"
    unfolding createTable_def s by (rule runDdl_result)
qed

theorem default_closed_set_witness:
  "defaultAllowed ''-1.5'' \<and> defaultAllowed (CHR 0x27 # ''new'' @ [CHR 0x27]) \<and>
   \<not> defaultAllowed ''1e5'' \<and>
   isBadRequest (fst (addColumn demoDatabase ''p'' ''users''
     (demoColumn\<lparr>cd_defaultValue := Some ''1e5''\<rparr>) emptyWorld)) \<and>
   issued (snd (addColumn demoDatabase ''p'' ''users''
     (demoColumn\<lparr>cd_defaultValue := Some ''1e5''\<rparr>) emptyWorld)) = [] \<and>
   isBadRequest (fst (createTable demoDatabase ''p'' ''t''
     [demoColumn, demoColumn\<lparr>cd_defaultValue := Some ''1e5''\<rparr>] False emptyWorld)) \<and>
   issued (snd (createTable demoDatabase ''p'' ''t''
     [demoColumn, demoColumn\<lparr>cd_defaultValue := Some ''1e5''\<rparr>] False emptyWorld)) = [] \<and>
   issued (snd (addColumn demoDatabase ''p'' ''users'' priceColumn emptyWorld)) =
     [\<lparr>s_role = Owner, s_project = ''p'',
       s_sql = ''ALTER TABLE '' @ [CHR 0x22] @ ''users'' @ [CHR 0x22] @ '' ADD COLUMN '' @
               [CHR 0x22] @ ''price'' @ [CHR 0x22] @ '' numeric(10, 2) NOT NULL DEFAULT -1.5'',
       s_params = []\<rparr>] \<and>
   fst (addColumn demoDatabase ''p'' ''users'' priceColumn emptyWorld) =
     Inr (''users'', ''price'') \<and>
   sublist ([CHR 0x22] @ ''price'' @ [CHR 0x22] @ '' numeric(10, 2) NOT NULL DEFAULT -1.5'')
     (createTableSql ''t'' (clausesOf [demoColumn, priceColumn]) False) \<and>
   createTableSql ''t'' (clausesOf [demoColumn, priceColumn]) False =
     ''CREATE TABLE '' @ [CHR 0x22] @ ''t'' @ [CHR 0x22] @ '' ('' @ [CHR 0x0A] @
     ''  '' @ [CHR 0x22] @ ''c'' @ [CHR 0x22] @ '' text,'' @ [CHR 0x0A] @
     ''  '' @ [CHR 0x22] @ ''price'' @ [CHR 0x22] @ '' numeric(10, 2) NOT NULL DEFAULT -1.5'' @
     [CHR 0x0A] @ '')'' \<and>
   issued (snd (createTable demoDatabase ''p'' ''t'' [demoColumn, priceColumn] False emptyWorld)) =
     [\<lparr>s_role = Owner, s_project = ''p'',
       s_sql = createTableSql ''t'' (clausesOf [demoColumn, priceColumn]) False,
       s_params = []\<rparr>] \<and>
   fst (createTable demoDatabase ''p'' ''t'' [demoColumn, priceColumn] False emptyWorld) =
     Inr ''t''"
proof -
  have n: "\<exists>m ds fs. ''-1.5'' = m @ ds @ fs \<and> (m = [] \<or> m = ''-'') \<and> ds \<noteq> [] \<and>
      list_all isDigit ds \<and>
      (fs = [] \<or> (\<exists>frac. fs = CHR ''.'' # frac \<and> frac \<noteq> [] \<and> list_all isDigit frac))"
    by (rule exI [of _ "''-''"], rule exI [of _ "''1''"], rule exI [of _ "''.5''"])
      (simp add: isDigit_def code_def)
  have q: "\<exists>body. CHR 0x27 # ''new'' @ [CHR 0x27] = CHR 0x27 # body @ [CHR 0x27] \<and>
      CHR 0x27 \<notin> set body"
    by (rule exI [of _ "''new''"]) simp
  have r: "\<not> defaultAllowed ''1e5''" by code_simp
  have e: "issued emptyWorld = []" by (simp add: emptyWorld_def)
  have c: "cd_defaultValue (demoColumn\<lparr>cd_defaultValue := Some ''1e5''\<rparr>) = Some ''1e5''"
    "demoColumn\<lparr>cd_defaultValue := Some ''1e5''\<rparr>
       \<in> set [demoColumn, demoColumn\<lparr>cd_defaultValue := Some ''1e5''\<rparr>]"
    by simp_all
  note A = default_closed_set [where d = "''-1.5''" and col = demoColumn and cols = "[]"
      and D = demoDatabase and pid = "''p''" and tableName = "''t''" and w = emptyWorld
      and ifNotExists = False]
  note B = default_closed_set [where d = "CHR 0x27 # ''new'' @ [CHR 0x27]" and col = demoColumn
      and cols = "[]" and D = demoDatabase and pid = "''p''" and tableName = "''t''"
      and w = emptyWorld and ifNotExists = False]
  note C = default_closed_set [where d = "''1e5''"
      and col = "demoColumn\<lparr>cd_defaultValue := Some ''1e5''\<rparr>"
      and cols = "[demoColumn, demoColumn\<lparr>cd_defaultValue := Some ''1e5''\<rparr>]"
      and D = demoDatabase and pid = "''p''" and tableName = "''users''" and w = emptyWorld
      and ifNotExists = False]
  note C' = default_closed_set [where d = "''1e5''"
      and col = "demoColumn\<lparr>cd_defaultValue := Some ''1e5''\<rparr>"
      and cols = "[demoColumn, demoColumn\<lparr>cd_defaultValue := Some ''1e5''\<rparr>]"
      and D = demoDatabase and pid = "''p''" and tableName = "''t''" and w = emptyWorld
      and ifNotExists = False]
  note E = default_closed_set [where d = "''-1.5''" and col = priceColumn
      and cols = "[demoColumn, priceColumn]"
      and D = demoDatabase and pid = "''p''" and tableName = "''users''" and w = emptyWorld
      and ifNotExists = False]
  note F = default_closed_set [where d = "''-1.5''" and col = priceColumn
      and cols = "[demoColumn, priceColumn]"
      and D = demoDatabase and pid = "''p''" and tableName = "''t''" and w = emptyWorld
      and ifNotExists = False]
  have a: "defaultAllowed ''-1.5''"
    by (rule iffD2 [OF A [THEN conjunct1]], rule disjI2, rule disjI2, rule disjI2, rule disjI2,
        rule disjI2, rule disjI1, rule n)
  have b: "defaultAllowed (CHR 0x27 # ''new'' @ [CHR 0x27])"
    by (rule iffD2 [OF B [THEN conjunct1]], rule disjI2, rule disjI2, rule disjI2, rule disjI2,
        rule disjI2, rule disjI2, rule q)
  from C [THEN conjunct2, THEN conjunct1] r c e have c1: "isBadRequest (fst (addColumn demoDatabase ''p'' ''users''
     (demoColumn\<lparr>cd_defaultValue := Some ''1e5''\<rparr>) emptyWorld)) \<and>
   issued (snd (addColumn demoDatabase ''p'' ''users''
     (demoColumn\<lparr>cd_defaultValue := Some ''1e5''\<rparr>) emptyWorld)) = []" by simp
  from C' [THEN conjunct2, THEN conjunct2, THEN conjunct1] r c e have c2: "isBadRequest (fst (createTable demoDatabase ''p'' ''t''
     [demoColumn, demoColumn\<lparr>cd_defaultValue := Some ''1e5''\<rparr>] False emptyWorld)) \<and>
   issued (snd (createTable demoDatabase ''p'' ''t''
     [demoColumn, demoColumn\<lparr>cd_defaultValue := Some ''1e5''\<rparr>] False emptyWorld)) = []" by simp
  have u: "validateIdentifier ''users'' Table = Inr ()" by code_simp
  have t: "validateIdentifier ''t'' Table = Inr ()" by code_simp
  have pn: "validateIdentifier (cd_name priceColumn) Column = Inr ()" by code_simp
  have pt: "dataTypeAllowed (cd_type priceColumn)" by code_simp
  have pd: "cd_defaultValue priceColumn = Some ''-1.5''" by (simp add: priceColumn_def)
  have pc: "columnChecked priceColumn" by code_simp
  have dc: "columnChecked demoColumn" by code_simp
  have dd: "cd_defaultValue demoColumn = None" by (simp add: demoColumn_def)
  have pf: "cd_nullable priceColumn = Some False" "\<not> cd_unique priceColumn"
    "cd_name priceColumn = ''price''" "cd_type priceColumn = ''numeric(10, 2)''"
    by (simp_all add: priceColumn_def)
  have ans: "answer demoDatabase hist st = Inr \<lparr>qr_rows = [], qr_rowCount = Some 0\<rparr>" for hist st
    by (simp add: demoDatabase_def)
  have all: "\<forall>c \<in> set [demoColumn, priceColumn].
      columnChecked c \<and> (\<forall>dv. cd_defaultValue c = Some dv \<longrightarrow> defaultAllowed dv)"
    using pc dc dd pd a by simp
  have e1: "issued (snd (addColumn demoDatabase ''p'' ''users'' priceColumn emptyWorld)) =
     [\<lparr>s_role = Owner, s_project = ''p'',
       s_sql = ''ALTER TABLE '' @ [CHR 0x22] @ ''users'' @ [CHR 0x22] @ '' ADD COLUMN '' @
               [CHR 0x22] @ ''price'' @ [CHR 0x22] @ '' numeric(10, 2) NOT NULL DEFAULT -1.5'',
       s_params = []\<rparr>]"
    using E [THEN conjunct2, THEN conjunct2, THEN conjunct2, THEN conjunct1, THEN mp,
        THEN conjunct1] u pn pt pd a
    by (simp add: pf e quoteIdent_def)
  have e2: "fst (addColumn demoDatabase ''p'' ''users'' priceColumn emptyWorld) =
     Inr (''users'', ''price'')"
    using E [THEN conjunct2, THEN conjunct2, THEN conjunct2, THEN conjunct1, THEN mp,
        THEN conjunct2] u pn pt pd a
    by (simp add: pf ans)
  have len: "[demoColumn, priceColumn] \<noteq> [] \<and> length [demoColumn, priceColumn] \<le> 100"
    by simp
  have mem: "priceColumn \<in> set [demoColumn, priceColumn]" by simp
  note G = F [THEN conjunct2, THEN conjunct2, THEN conjunct2, THEN conjunct2, THEN mp]
  have f1: "sublist ([CHR 0x22] @ ''price'' @ [CHR 0x22] @ '' numeric(10, 2) NOT NULL DEFAULT -1.5'')
     (createTableSql ''t'' (clausesOf [demoColumn, priceColumn]) False)"
    using G [THEN conjunct1] t len all mem pd
    by (simp add: pf quoteIdent_def)
  have f2: "issued (snd (createTable demoDatabase ''p'' ''t'' [demoColumn, priceColumn] False emptyWorld)) =
     [\<lparr>s_role = Owner, s_project = ''p'',
       s_sql = createTableSql ''t'' (clausesOf [demoColumn, priceColumn]) False,
       s_params = []\<rparr>]"
    using G [THEN conjunct2, THEN conjunct1] t len all mem pd
    by (simp add: e)
  have f3: "fst (createTable demoDatabase ''p'' ''t'' [demoColumn, priceColumn] False emptyWorld) =
     Inr ''t''"
    using G [THEN conjunct2, THEN conjunct2] t len all mem pd
    by (simp add: ans)
  have full: "createTableSql ''t'' (clausesOf [demoColumn, priceColumn]) False =
     ''CREATE TABLE '' @ [CHR 0x22] @ ''t'' @ [CHR 0x22] @ '' ('' @ [CHR 0x0A] @
     ''  '' @ [CHR 0x22] @ ''c'' @ [CHR 0x22] @ '' text,'' @ [CHR 0x0A] @
     ''  '' @ [CHR 0x22] @ ''price'' @ [CHR 0x22] @ '' numeric(10, 2) NOT NULL DEFAULT -1.5'' @
     [CHR 0x0A] @ '')''"
    by code_simp
  show ?thesis
    by (intro conjI) (fact a b r c1 [THEN conjunct1] c1 [THEN conjunct2] c2 [THEN conjunct1]
        c2 [THEN conjunct2] e1 e2 f1 full f2 f3)+
qed

text \<open>
  C7, as it is stated, fails: \<^verbatim>\<open>'it''s'\<close> is a single-quoted string literal whose only
  embedded quote is escaped, and the code rejects it.
\<close>

theorem escaped_quote_default_counterexample:
  "specStringLiteral escapedQuoteLiteral \<and> \<not> defaultAllowed escapedQuoteLiteral \<and>
   isBadRequest (fst (addColumn demoDatabase ''p'' ''users''
     (demoColumn\<lparr>cd_defaultValue := Some escapedQuoteLiteral\<rparr>) emptyWorld))"
  by code_simp

section \<open>The schema cache after DDL\<close>























end
